theory Spec2Isabelle
  imports Complex_Main "HOL-Library.Word"
begin

unbundle bit_operations_syntax

chapter \<open>Sigmet raw product utilities: bit copying, 3D arrays and the client side of the daemon protocol\<close>

section \<open>Machine types\<close>

text \<open>
  The sources are C. Bytes are \<open>uint8_t\<close>; \<open>size_t\<close> is taken at its LP64 width of
  64 bits, \<open>unsigned\<close> and \<open>int\<close> at 32 bits. Word arithmetic wraps around as the C
  unsigned arithmetic does.
\<close>

type_synonym uint8_t = "8 word"
type_synonym size_t = "64 word"
type_synonym unsigned = "32 word"

section \<open>copy\_bits.c\<close>

text \<open>
  \<open>copy_bits_packed_right(src, dest, o, n)\<close>. The two buffers are byte lists. A read or
  write outside a buffer is undefined behaviour in C; the model returns \<open>None\<close> there, so
  a result \<open>Some d\<close> also says that every access was in bounds.

  \<open>memset(dest_bytes, 0, dest_bytes_len)\<close>:
\<close>

definition memset_zero :: "uint8_t list \<Rightarrow> size_t \<Rightarrow> uint8_t list option" where
  "memset_zero dest_bytes len =
     (if unat len \<le> length dest_bytes
      then Some (replicate (unat len) 0 @ drop (unat len) dest_bytes)
      else None)"

text \<open>
  The \<open>for\<close> loop, from the current value of \<open>i\<close>. All of \<open>o + i\<close>, \<open>/ 8\<close>,
  \<open>% 8\<close> and \<open>++i\<close> are \<open>size_t\<close> operations; \<open>(src_bytes[src_byte] >> src_bit) & 1\<close> and
  \<open>bit_val << dest_bit\<close> stay within eight bits because \<open>bit_val\<close> is 0 or 1 and
  \<open>dest_bit < 8\<close>.
\<close>

function copy_bits_loop ::
  "uint8_t list \<Rightarrow> size_t \<Rightarrow> size_t \<Rightarrow> size_t \<Rightarrow> uint8_t list \<Rightarrow> uint8_t list option" where
  "copy_bits_loop src_bytes o' n i dest_bytes =
     (if i < n then
        (let src_bit_pos = o' + i;
             src_byte = unat (src_bit_pos div 8);
             src_bit = unat (src_bit_pos mod 8)
         in if src_byte < length src_bytes then
              (let bit_val = (drop_bit src_bit (src_bytes ! src_byte)) AND 1;
                   dest_byte = unat (i div 8);
                   dest_bit = unat (i mod 8)
               in if dest_byte < length dest_bytes then
                    copy_bits_loop src_bytes o' n (i + 1)
                      (dest_bytes[dest_byte := (dest_bytes ! dest_byte) OR push_bit dest_bit bit_val])
                  else None)
            else None)
      else Some dest_bytes)"
  by pat_completeness auto
termination
proof (relation "measure (\<lambda>(src_bytes, o', n, i, dest_bytes). unat n - unat i)", goal_cases)
  case 1
  show ?case by simp
next
  case (2 src_bytes o' n i dest_bytes)
  from \<open>i < n\<close> have ltn: "unat i < unat n"
    by (simp add: word_less_nat_alt)
  have "unat n < 2 ^ 64"
    using unsigned_less [of n] by simp
  with ltn have "(unat i + 1) mod 2 ^ 64 = unat i + 1"
    by simp
  then have "unat (i + 1) = Suc (unat i)"
    by (simp add: unat_word_ariths)
  with ltn show ?case
    by simp
qed

declare copy_bits_loop.simps [simp del]

definition copy_bits_packed_right ::
  "uint8_t list \<Rightarrow> uint8_t list \<Rightarrow> size_t \<Rightarrow> size_t \<Rightarrow> uint8_t list option" where
  "copy_bits_packed_right src dest o' n =
     (let dest_bytes_len = (n + 7) div 8
      in case memset_zero dest dest_bytes_len of
           None \<Rightarrow> None
         | Some dest_bytes \<Rightarrow> copy_bits_loop src o' n 0 dest_bytes)"

text \<open>Bit \<open>p\<close> of a byte buffer, least significant bit of each byte first.\<close>

definition get_bit :: "uint8_t list \<Rightarrow> nat \<Rightarrow> bool" where
  "get_bit bytes p = bit (bytes ! (p div 8)) (p mod 8)"

section \<open>alloc3f.c\<close>

text \<open>
  \<open>create_3d_float_array\<close> carves one \<open>malloc\<close> block into a table of \<open>float **\<close>,
  a table of \<open>float *\<close> and the \<open>float\<close> data. Addresses are byte addresses; on LP64 a
  pointer takes 8 bytes and a \<open>float\<close> 4. The model keeps the allocated block (its base
  and the size that was requested) and the pointer cells written so far, keyed by address.
  A pointer store or load that does not lie inside the block, or a load of a cell that was
  never written, is undefined behaviour and yields \<open>None\<close>.
\<close>

record heap =
  block_base :: nat
  block_size :: nat
  cells :: "nat \<rightharpoonup> nat"

definition in_block :: "heap \<Rightarrow> nat \<Rightarrow> nat \<Rightarrow> bool" where
  "in_block m a len = (block_base m \<le> a \<and> a + len \<le> block_base m + block_size m)"

definition store_ptr :: "heap \<Rightarrow> nat \<Rightarrow> nat \<Rightarrow> heap option" where
  "store_ptr m a v =
     (if in_block m a 8 then Some (m\<lparr>cells := (cells m)(a \<mapsto> v)\<rparr>) else None)"

definition load_ptr :: "heap \<Rightarrow> nat \<Rightarrow> nat option" where
  "load_ptr m a = (if in_block m a 8 then cells m a else None)"

text \<open>
  The inner loop, \<open>f[i][j] = f_k + (i * num_j * num_k) + (j * num_k)\<close> from the current
  \<open>j\<close>. The index products are \<open>size_t\<close> products; \<open>f[i]\<close> is read back from memory.
\<close>

function set_f_ij_loop ::
  "nat \<Rightarrow> nat \<Rightarrow> size_t \<Rightarrow> size_t \<Rightarrow> size_t \<Rightarrow> size_t \<Rightarrow> heap \<Rightarrow> heap option" where
  "set_f_ij_loop f f_k num_j num_k i j m =
     (if j < num_j then
        (case load_ptr m (f + 8 * unat i) of
           None \<Rightarrow> None
         | Some f_i \<Rightarrow>
             (case store_ptr m (f_i + 8 * unat j)
                     (f_k + 4 * unat (i * num_j * num_k) + 4 * unat (j * num_k)) of
                None \<Rightarrow> None
              | Some m' \<Rightarrow> set_f_ij_loop f f_k num_j num_k i (j + 1) m'))
      else Some m)"
  by pat_completeness auto
termination
proof (relation "measure (\<lambda>(f, f_k, num_j, num_k, i, j, m). unat num_j - unat j)", goal_cases)
  case 1
  show ?case by simp
next
  case (2 f f_k num_j num_k i j m f_i m')
  from \<open>j < num_j\<close> have ltn: "unat j < unat num_j"
    by (simp add: word_less_nat_alt)
  have "unat num_j < 2 ^ 64"
    using unsigned_less [of num_j] by simp
  with ltn have "(unat j + 1) mod 2 ^ 64 = unat j + 1"
    by simp
  then have "unat (j + 1) = Suc (unat j)"
    by (simp add: unat_word_ariths)
  with ltn show ?case
    by simp
qed

declare set_f_ij_loop.simps [simp del]

text \<open>The outer loop, \<open>f[i] = f_j + i * num_j\<close> followed by the inner loop, from the current \<open>i\<close>.\<close>

function set_f_i_loop ::
  "nat \<Rightarrow> nat \<Rightarrow> nat \<Rightarrow> size_t \<Rightarrow> size_t \<Rightarrow> size_t \<Rightarrow> size_t \<Rightarrow> heap \<Rightarrow> heap option" where
  "set_f_i_loop f f_j f_k num_i num_j num_k i m =
     (if i < num_i then
        (case store_ptr m (f + 8 * unat i) (f_j + 8 * unat (i * num_j)) of
           None \<Rightarrow> None
         | Some m1 \<Rightarrow>
             (case set_f_ij_loop f f_k num_j num_k i 0 m1 of
                None \<Rightarrow> None
              | Some m2 \<Rightarrow> set_f_i_loop f f_j f_k num_i num_j num_k (i + 1) m2))
      else Some m)"
  by pat_completeness auto
termination
proof (relation "measure (\<lambda>(f, f_j, f_k, num_i, num_j, num_k, i, m). unat num_i - unat i)", goal_cases)
  case 1
  show ?case by simp
next
  case (2 f f_j f_k num_i num_j num_k i m m1 m2)
  from \<open>i < num_i\<close> have ltn: "unat i < unat num_i"
    by (simp add: word_less_nat_alt)
  have "unat num_i < 2 ^ 64"
    using unsigned_less [of num_i] by simp
  with ltn have "(unat i + 1) mod 2 ^ 64 = unat i + 1"
    by simp
  then have "unat (i + 1) = Suc (unat i)"
    by (simp add: unat_word_ariths)
  with ltn show ?case
    by simp
qed

declare set_f_i_loop.simps [simp del]

text \<open>
  The function. \<open>malloc\<close> is the allocator's answer to a request: \<open>None\<close> for a null
  pointer, otherwise the base address of a block of the requested size. The result is
  \<open>Null\<close> (the early \<open>return NULL\<close>), \<open>Undefined\<close> (an access outside the block) or the
  returned pointer \<open>f\<close> with the memory it leaves behind.
\<close>

datatype alloc3f_result = Null | Undefined | Array3 nat heap

definition create_3d_float_array ::
  "(size_t \<Rightarrow> nat option) \<Rightarrow> size_t \<Rightarrow> size_t \<Rightarrow> size_t \<Rightarrow> alloc3f_result" where
  "create_3d_float_array malloc num_i num_j num_k =
     (let ptrs_size = num_i * 8 + num_i * num_j * 8;
          data_size = num_i * num_j * num_k * 4
      in case malloc (ptrs_size + data_size) of
           None \<Rightarrow> Null
         | Some block \<Rightarrow>
             (let f = block;
                  f_j = block + unat (num_i * 8);
                  f_k = block + unat ptrs_size
              in case set_f_i_loop f f_j f_k num_i num_j num_k 0
                        \<lparr>block_base = block, block_size = unat (ptrs_size + data_size),
                         cells = Map.empty\<rparr> of
                   None \<Rightarrow> Undefined
                 | Some m \<Rightarrow> Array3 f m))"

text \<open>An allocator that answers every request with a block at address \<open>b\<close>.\<close>

definition malloc_at :: "nat \<Rightarrow> size_t \<Rightarrow> nat option" where
  "malloc_at b sz = Some b"

text \<open>An allocator that answers every request with a null pointer.\<close>

definition malloc_fails :: "size_t \<Rightarrow> nat option" where
  "malloc_fails sz = None"

text \<open>
  What a caller reads through the returned structure: \<open>f[i][j]\<close> is the pointer loaded
  from \<open>f[i]\<close>, indexed by \<open>j\<close> and loaded again; \<open>f[i][j][k]\<close> lies \<open>k\<close> floats further.
\<close>

definition f_ij_ptr :: "heap \<Rightarrow> nat \<Rightarrow> nat \<Rightarrow> nat \<Rightarrow> nat option" where
  "f_ij_ptr m f i j =
     (case load_ptr m (f + 8 * i) of
        None \<Rightarrow> None
      | Some f_i \<Rightarrow> load_ptr m (f_i + 8 * j))"

definition f_ijk_addr :: "heap \<Rightarrow> nat \<Rightarrow> nat \<Rightarrow> nat \<Rightarrow> nat \<Rightarrow> nat option" where
  "f_ijk_addr m f i j k =
     (case f_ij_ptr m f i j of
        None \<Rightarrow> None
      | Some f_ij \<Rightarrow> Some (f_ij + 4 * k))"

text \<open>
  The sizes of the two pointer tables and of the float data in bytes, as natural numbers
  (without wrap-around), and the element offset of \<open>f[i][j][k]\<close> in the float data.
\<close>

definition ptrs_bytes :: "nat \<Rightarrow> nat \<Rightarrow> nat" where
  "ptrs_bytes ni nj = 8 * ni + 8 * (ni * nj)"

definition data_bytes :: "nat \<Rightarrow> nat \<Rightarrow> nat \<Rightarrow> nat" where
  "data_bytes ni nj nk = 4 * (ni * nj * nk)"

definition elem_offset :: "nat \<Rightarrow> nat \<Rightarrow> nat \<Rightarrow> nat \<Rightarrow> nat \<Rightarrow> nat" where
  "elem_offset num_j num_k i j k = (i * num_j + j) * num_k + k"

section \<open>sigmet.h and sigmet\_raw.h: constants and the request record\<close>

definition SIGMET_DATA_TYPE_LEN :: nat where
  "SIGMET_DATA_TYPE_LEN = 16"

definition SIGMET_TZ_STRLEN :: nat where
  "SIGMET_TZ_STRLEN = 11"

definition UINT_MAX :: unsigned where
  "UINT_MAX = 0xFFFFFFFF"

text \<open>Daemon subcommand specifiers, with the values the \<open>enum\<close> gives them.\<close>

datatype SigmetRaw_SubCmdN =
  SigmetRawExit | SigmetRawVolumeHeaders | SigmetRawSwpHeaders | SigmetRawRayHeaders |
  SigmetRawData | SigmetRawCorx

fun sub_cmd_code :: "SigmetRaw_SubCmdN \<Rightarrow> int" where
  "sub_cmd_code SigmetRawExit = 0"
| "sub_cmd_code SigmetRawVolumeHeaders = 1"
| "sub_cmd_code SigmetRawSwpHeaders = 2"
| "sub_cmd_code SigmetRawRayHeaders = 3"
| "sub_cmd_code SigmetRawData = 4"
| "sub_cmd_code SigmetRawCorx = 5"

text \<open>Daemon status codes.\<close>

datatype SigmetRaw_Status = SigmetRawError | SigmetRawOkay

text \<open>Order of parameters in client-to-daemon requests, and of the shared descriptors.\<close>

definition SIGMETRAW_RQST_IOVLEN :: nat where
  "SIGMETRAW_RQST_IOVLEN = 3"

definition SigmetRawRqstSubCmd :: nat where "SigmetRawRqstSubCmd = 0"
definition SigmetRawRqstDataType :: nat where "SigmetRawRqstDataType = 1"
definition SigmetRawRqstSwpIdx :: nat where "SigmetRawRqstSwpIdx = 2"

definition SigmetRawErrFD :: nat where "SigmetRawErrFD = 0"
definition SigmetRawHdrDataFD :: nat where "SigmetRawHdrDataFD = 1"

text \<open>
  \<open>struct SigmetRaw_Rqst\<close>. The subcommand is kept as the integer the \<open>enum\<close> object holds
  (\<open>SigmetRaw_Rqst_Init\<close> stores \<open>-1\<close> there); \<open>abbrv\<close> is the array of
  \<open>SIGMET_DATA_TYPE_LEN\<close> characters; the sweep index \<open>s\<close> is kept as its 32 bits, which is
  what both the \<open>unsigned\<close> argument of \<open>SigmetRaw_Rqst_Set_Swp\<close> and the \<open>int\<close> member
  share; descriptors are \<open>int\<close>.
\<close>

record SigmetRaw_Rqst =
  sub_cmd_n :: int
  abbrv :: "char list"
  s :: unsigned
  hd_fd :: int
  err_fd :: int

section \<open>sigmet\_raw\_client.c\<close>

definition NUL :: char where
  "NUL = CHR 0x00"

definition SigmetRaw_Rqst_Init :: SigmetRaw_Rqst where
  "SigmetRaw_Rqst_Init =
     \<lparr>sub_cmd_n = -1, abbrv = replicate SIGMET_DATA_TYPE_LEN NUL, s = -1, hd_fd = -1,
      err_fd = -1\<rparr>"

definition SigmetRaw_Rqst_Set_SubCmd :: "SigmetRaw_Rqst \<Rightarrow> SigmetRaw_SubCmdN \<Rightarrow> SigmetRaw_Rqst" where
  "SigmetRaw_Rqst_Set_SubCmd rqst c = rqst\<lparr>sub_cmd_n := sub_cmd_code c\<rparr>"

text \<open>
  \<open>snprintf(buf, n, "%s", str)\<close> on a character array \<open>buf\<close>: at most \<open>n - 1\<close> characters
  of \<open>str\<close> are stored, followed by a terminating NUL; the rest of the array keeps its
  contents. A C string holds no NUL, so \<open>str\<close> is the list of its characters.
\<close>

definition snprintf_s :: "char list \<Rightarrow> nat \<Rightarrow> string \<Rightarrow> char list" where
  "snprintf_s buf n str =
     (if n = 0 then buf
      else (let k = min (length str) (n - 1)
            in take k str @ [NUL] @ drop (k + 1) buf))"

definition SigmetRaw_Rqst_Set_DataType :: "SigmetRaw_Rqst \<Rightarrow> string \<Rightarrow> SigmetRaw_Rqst" where
  "SigmetRaw_Rqst_Set_DataType rqst str =
     rqst\<lparr>abbrv := snprintf_s (abbrv rqst) SIGMET_DATA_TYPE_LEN str\<rparr>"

definition SigmetRaw_Rqst_Set_Swp :: "SigmetRaw_Rqst \<Rightarrow> unsigned \<Rightarrow> SigmetRaw_Rqst" where
  "SigmetRaw_Rqst_Set_Swp rqst i = rqst\<lparr>s := i\<rparr>"

definition SigmetRaw_Rqst_Set_ShFD :: "SigmetRaw_Rqst \<Rightarrow> int \<Rightarrow> SigmetRaw_Rqst" where
  "SigmetRaw_Rqst_Set_ShFD rqst fd = rqst\<lparr>hd_fd := fd\<rparr>"

definition SigmetRaw_Rqst_Set_ErrFD :: "SigmetRaw_Rqst \<Rightarrow> int \<Rightarrow> SigmetRaw_Rqst" where
  "SigmetRaw_Rqst_Set_ErrFD rqst fd = rqst\<lparr>err_fd := fd\<rparr>"

text \<open>
  The message handed to \<open>sendmsg\<close>: the \<open>iovec\<close> array (each entry with what its
  \<open>iov_base\<close> points at and its \<open>iov_len\<close>) and the control message (level, type and the
  descriptor array copied behind the header).
\<close>

datatype rqst_member = Member_sub_cmd_n int | Member_abbrv "char list" | Member_s unsigned

record iovec =
  iov_base :: rqst_member
  iov_len :: nat

datatype cmsg_level = SOL_SOCKET
datatype cmsg_type = SCM_RIGHTS

record msghdr =
  msg_iov :: "iovec list"
  msg_iovlen :: nat
  cmsg_level :: cmsg_level
  cmsg_type :: cmsg_type
  cmsg_data :: "int list"

text \<open>
  What the operating system answers during one \<open>SigmetRaw_Rqst_Send\<close>: \<open>open\<close> of a path
  (\<open>None\<close> for \<open>-1\<close>, otherwise the new descriptor, which is not negative), whether
  \<open>CMSG_FIRSTHDR\<close> yields a null pointer, and the return value of \<open>sendmsg\<close>.
\<close>

record os_answers =
  open_rdonly :: "string \<Rightarrow> nat option"
  cmsg_firsthdr_null :: bool
  sendmsg_ret :: int

text \<open>
  The outcome of a send: the return value (1 or 0), the error text left in \<open>err_msg_p\<close> (the
  \<open>strerror\<close> text is not modelled), the message given to \<open>sendmsg\<close> if the call was
  reached, and the descriptors passed to \<open>close\<close>.
\<close>

record send_outcome =
  send_ret :: int
  send_err :: "string option"
  sendmsg_arg :: "msghdr option"
  closed_fds :: "int list"

definition sizeof_int :: nat where
  "sizeof_int = 4"

definition SigmetRaw_Rqst_Send :: "os_answers \<Rightarrow> SigmetRaw_Rqst \<Rightarrow> send_outcome" where
  "SigmetRaw_Rqst_Send os rqst =
     (let iov = [\<lparr>iov_base = Member_sub_cmd_n (sub_cmd_n rqst), iov_len = sizeof_int\<rparr>,
                 \<lparr>iov_base = Member_abbrv (abbrv rqst), iov_len = SIGMET_DATA_TYPE_LEN\<rparr>,
                 \<lparr>iov_base = Member_s (s rqst), iov_len = sizeof_int\<rparr>];
          need_fd0 = (err_fd rqst < 0 \<or> hd_fd rqst < 0);
          fd0 = (if need_fd0 then
                   (case open_rdonly os ''/dev/null'' of None \<Rightarrow> -1 | Some d \<Rightarrow> int d)
                 else -1)
      in if need_fd0 \<and> fd0 = -1 then
           \<lparr>send_ret = 0,
            send_err = Some ''SigmetRaw_Rqst_Send coud not open placeholder file /dev/null.'',
            sendmsg_arg = None, closed_fds = []\<rparr>
         else
           (let fd = [if err_fd rqst \<ge> 0 then err_fd rqst else fd0,
                      if hd_fd rqst \<ge> 0 then hd_fd rqst else fd0]
            in if cmsg_firsthdr_null os then
                 \<lparr>send_ret = 0,
                  send_err = Some ''SigmetRaw_Rqst_Send could not obtain memory for request message control.'',
                  sendmsg_arg = None, closed_fds = []\<rparr>
               else
                 (let rqst_msg = \<lparr>msg_iov = iov, msg_iovlen = SIGMETRAW_RQST_IOVLEN,
                                   cmsg_level = SOL_SOCKET, cmsg_type = SCM_RIGHTS,
                                   cmsg_data = fd\<rparr>
                  in if sendmsg_ret os = -1 then
                       \<lparr>send_ret = 0,
                        send_err = Some ''SigmetRaw_Rqst_Send failed to send message to daemon.'',
                        sendmsg_arg = Some rqst_msg, closed_fds = []\<rparr>
                     else
                       \<lparr>send_ret = 1, send_err = None, sendmsg_arg = Some rqst_msg,
                        closed_fds = [fd0]\<rparr>)))"

text \<open>The sixteen bytes of the data-type field as they go on the wire.\<close>

definition wire_data_type :: "msghdr \<Rightarrow> char list" where
  "wire_data_type m =
     (case iov_base (msg_iov m ! SigmetRawRqstDataType) of
        Member_abbrv a \<Rightarrow> take (iov_len (msg_iov m ! SigmetRawRqstDataType)) a
      | _ \<Rightarrow> [])"

text \<open>The claimed content of the field: the abbreviation followed by NULs up to sixteen bytes.\<close>

definition zero_padded :: "string \<Rightarrow> char list" where
  "zero_padded str = str @ replicate (SIGMET_DATA_TYPE_LEN - length str) NUL"

text \<open>An operating system on which \<open>/dev/null\<close> opens as descriptor \<open>d\<close> and \<open>sendmsg\<close> sends \<open>n\<close> bytes.\<close>

definition os_ok :: "nat \<Rightarrow> int \<Rightarrow> os_answers" where
  "os_ok d n = \<lparr>open_rdonly = (\<lambda>p. if p = ''/dev/null'' then Some d else None),
                cmsg_firsthdr_null = False, sendmsg_ret = n\<rparr>"

section \<open>sigmet.h: values and headers used by the client programs\<close>

text \<open>
  A C \<open>float\<close> or \<open>double\<close> value is \<open>NAN\<close> or a number. Arithmetic yields \<open>NAN\<close> as soon
  as an operand is \<open>NAN\<close> and otherwise the exact result rounded to the target format;
  the two rounding functions are parameters. Infinities are not represented.
\<close>

datatype fp = NaN | Num real

record fp_rounding =
  to_float :: "real \<Rightarrow> real"
  to_double :: "real \<Rightarrow> real"

fun fp_add :: "(real \<Rightarrow> real) \<Rightarrow> fp \<Rightarrow> fp \<Rightarrow> fp" where
  "fp_add rnd (Num a) (Num b) = Num (rnd (a + b))"
| "fp_add rnd _ _ = NaN"

fun fp_mul :: "(real \<Rightarrow> real) \<Rightarrow> fp \<Rightarrow> fp \<Rightarrow> fp" where
  "fp_mul rnd (Num a) (Num b) = Num (rnd (a * b))"
| "fp_mul rnd _ _ = NaN"

text \<open>The conversion of an \<open>unsigned\<close> to \<open>float\<close> in \<open>ray_tm = ray_hdr.tm\<close>.\<close>

definition float_of_unsigned :: "fp_rounding \<Rightarrow> unsigned \<Rightarrow> fp" where
  "float_of_unsigned fr u = Num (to_float fr (real (unat u)))"

definition EXIT_FAILURE :: int where
  "EXIT_FAILURE = 1"


record Sigmet_YMDS_Tm =
  sec :: int
  msec :: nat
  dst :: bool
  utc :: bool
  ldst :: bool
  yr :: int
  mon :: int
  day :: int

text \<open>
  The members of \<open>struct Sigmet_VolHdr\<close> that the inline accessors of \<open>sigmet.h\<close> read, and
  the accessors.
\<close>

record 'ty Sigmet_VolHdr =
  task_scan_info_num_swps :: unsigned
  ingst_cfg_num_rays :: unsigned
  task_rng_info_num_bins_out :: unsigned
  curr_data_mask_mask_wd0 :: unsigned
  num_types :: unsigned
  types :: "'ty list"

definition Sigmet_VolNumSwps :: "'ty Sigmet_VolHdr \<Rightarrow> unsigned" where
  "Sigmet_VolNumSwps vol_hdr = task_scan_info_num_swps vol_hdr"

definition Sigmet_VolNumRays :: "'ty Sigmet_VolHdr \<Rightarrow> unsigned" where
  "Sigmet_VolNumRays vol_hdr = ingst_cfg_num_rays vol_hdr"

definition Sigmet_VolNumTypes :: "'ty Sigmet_VolHdr \<Rightarrow> unsigned" where
  "Sigmet_VolNumTypes vol_hdr = num_types vol_hdr"


definition Sigmet_VolXHdr :: "'ty Sigmet_VolHdr \<Rightarrow> bool" where
  "Sigmet_VolXHdr vol_hdr = (curr_data_mask_mask_wd0 vol_hdr AND 1 \<noteq> 0)"

record Sigmet_SwpHdr =
  swp_tm :: Sigmet_YMDS_Tm
  angl :: fp

record Sigmet_RayHdr =
  az0 :: fp
  tilt0 :: fp
  az1 :: fp
  tilt1 :: fp
  num_bins :: int
  tm :: unsigned

text \<open>
  \<open>struct Sigmet_Ray\<close>: the header and the data of one data type in one ray. \<open>dat\<close> is
  \<open>None\<close> for the null pointer, otherwise the storage values it points at.
\<close>

record 'dat Sigmet_Ray =
  ray_hdr :: Sigmet_RayHdr
  dat :: "'dat list option"


definition SigmetRaw_GetAllSwps :: "unsigned \<Rightarrow> bool" where
  "SigmetRaw_GetAllSwps i_swp = (i_swp = UINT_MAX)"

text \<open>
  Modelled from the spec: \<open>Sigmet_DataTypeStorToVal(type, n, out, in, vol_hdr)\<close>, declared in
  \<open>sigmet.h\<close> and defined elsewhere in the library. It converts \<open>n\<close> storage values to
  \<open>n\<close> physical values: \<open>out[b]\<close> receives the conversion of storage value \<open>in[b]\<close> for
  every \<open>b < n\<close>, and nothing else is written. The conversion of one storage value of a
  type is the parameter \<open>conv\<close>; it may yield \<open>NAN\<close>. Fewer than \<open>n\<close> values at \<open>in\<close>
  or \<open>out\<close> make the call undefined (\<open>None\<close>).
\<close>

definition Sigmet_DataTypeStorToVal ::
  "('ty \<Rightarrow> 'dat \<Rightarrow> fp) \<Rightarrow> 'ty \<Rightarrow> int \<Rightarrow> fp list \<Rightarrow> 'dat list \<Rightarrow> fp list option" where
  "Sigmet_DataTypeStorToVal conv type n out idat =
     (if nat n \<le> length idat \<and> nat n \<le> length out
      then Some (fold (\<lambda>b out'. out'[b := conv type (idat ! b)]) [0..<nat n] out)
      else None)"

section \<open>The command lines of data.c and ray\_headers.c\<close>

text \<open>
  What a program's \<open>main\<close> learns from its environment: \<open>getenv("APP_NAME")\<close>,
  \<open>basename\<close>, the data-type registry \<open>Sigmet_DataTypeGet\<close> (\<open>None\<close> for a null pointer),
  the two \<open>sscanf\<close> conversions (\<open>None\<close> when no item was converted) and \<open>stat\<close> reduced
  to the kind of file (\<open>None\<close> when \<open>stat\<close> fails).
\<close>

datatype file_kind = Regular_File | Fifo | Socket | Other_Kind

record 'ty cli_env =
  getenv_APP_NAME :: "string option"
  basename :: "string \<Rightarrow> string"
  Sigmet_DataTypeGet :: "string \<Rightarrow> 'ty option"
  sscanf_u :: "string \<Rightarrow> unsigned option"
  sscanf_d :: "string \<Rightarrow> int option"
  stat_kind :: "string \<Rightarrow> file_kind option"

text \<open>
  A \<open>main\<close> either leaves through \<open>exit\<close> with a status, after writing a text to standard
  error, or calls one of the functions that do the work.
\<close>

datatype 'call main_result = Exit int string | Call 'call

definition cmd_name :: "'ty cli_env \<Rightarrow> string list \<Rightarrow> string" where
  "cmd_name env argv =
     (case getenv_APP_NAME env of
        Some app \<Rightarrow> app
      | None \<Rightarrow> basename env (case argv of [] \<Rightarrow> [] | a # _ \<Rightarrow> a))"

datatype 'ty data_call =
  Data_fm_fl string "'ty" int bool string
| Skt_to_txt string "'ty" int string
| Skt_to_bin string "'ty" int string

definition data_main :: "'ty cli_env \<Rightarrow> string list \<Rightarrow> 'ty data_call main_result" where
  "data_main env argv =
     (let cmd = cmd_name env argv;
          argc = length argv
      in if \<not> (argc = 4 \<or> (argc = 5 \<and> argv ! 1 = ''-b'')) then
           Exit EXIT_FAILURE
             (''Usage: '' @ cmd @ '' [-b] data_type sweep_index raw_product_file|socket'' @ [CHR 0x0A])
         else
           (let txt = (argc = 4);
                str = (if txt then argv ! 1 else argv ! 2);
                s_s = (if txt then argv ! 2 else argv ! 3);
                path = (if txt then argv ! 3 else argv ! 4)
            in case Sigmet_DataTypeGet env str of
                 None \<Rightarrow>
                   Exit EXIT_FAILURE (cmd @ '': '' @ str @ '' is not a Sigmet data type.'' @ [CHR 0x0A])
               | Some type \<Rightarrow>
                   (case sscanf_d env s_s of
                      None \<Rightarrow>
                        Exit EXIT_FAILURE
                          (cmd @ '': expected integer for sweep index, got '' @ s_s @ [CHR 0x0A])
                    | Some sw \<Rightarrow>
                        (case stat_kind env path of
                           None \<Rightarrow>
                             Exit EXIT_FAILURE
                               (''sigmet_raw '' @ cmd @ '' '' @ str @ '' '' @ s_s @
                                '': could not get information about '' @ path @ ''. '')
                         | Some k \<Rightarrow>
                             if k = Regular_File \<or> k = Fifo then
                               Call (Data_fm_fl path type sw txt cmd)
                             else if k = Socket then
                               (if txt then Call (Skt_to_txt path type sw cmd)
                                else Call (Skt_to_bin path type sw cmd))
                             else
                               Exit EXIT_FAILURE
                                 (cmd @ '': '' @ path @ '' must be a file, fifo, or socket.'')))))"

datatype 'ty ray_headers_call =
  Ray_hdrs_fm_fl string "'ty option" unsigned string
| Ray_hdrs_fm_skt string "'ty option" unsigned string

definition ray_headers_main ::
  "'ty cli_env \<Rightarrow> string list \<Rightarrow> 'ty ray_headers_call main_result" where
  "ray_headers_main env argv =
     (let cmd = cmd_name env argv;
          argc = length argv
      in if \<not> (argc = 3 \<or> argc = 4) then
           Exit EXIT_FAILURE
             (''Usage: '' @ cmd @ '' sweep_index [data_type] raw_product_file|socket'' @ [CHR 0x0A])
         else
           (let s_swp = argv ! 1;
                path = argv ! (argc - 1)
            in if argc = 4 \<and> Sigmet_DataTypeGet env (argv ! 2) = None then
                 Exit EXIT_FAILURE
                   (cmd @ '': '' @ argv ! 2 @ '' is not a Sigmet data type.'' @ [CHR 0x0A])
               else
                 (let type = (if argc = 4 then Sigmet_DataTypeGet env (argv ! 2) else None)
                  in case (if s_swp = ''all'' then Some UINT_MAX else sscanf_u env s_swp) of
                       None \<Rightarrow>
                         Exit EXIT_FAILURE
                           (cmd @ '': expected integer or '' @ [CHR 0x22] @ ''all'' @ [CHR 0x22] @
                            '' for sweep index, got '' @ s_swp @ [CHR 0x0A])
                     | Some i_swp \<Rightarrow>
                         (case stat_kind env path of
                            None \<Rightarrow>
                              Exit EXIT_FAILURE
                                (cmd @ '': could not get information about '' @ path @ ''. '')
                          | Some k \<Rightarrow>
                              if k = Regular_File \<or> k = Fifo then
                                Call (Ray_hdrs_fm_fl path type i_swp cmd)
                              else if k = Socket then
                                Call (Ray_hdrs_fm_skt path type i_swp cmd)
                              else
                                Exit EXIT_FAILURE
                                  (cmd @ '': '' @ path @ '' must be a file, fifo, or socket.'')))))"

text \<open>The sweep index a call of \<open>ray_headers\<close> passes on.\<close>

fun ray_headers_call_i_swp :: "'ty ray_headers_call \<Rightarrow> unsigned" where
  "ray_headers_call_i_swp (Ray_hdrs_fm_fl _ _ i_swp _) = i_swp"
| "ray_headers_call_i_swp (Ray_hdrs_fm_skt _ _ i_swp _) = i_swp"

text \<open>
  The request \<open>ray_hdrs_fm_skt\<close> builds for the daemon; \<open>abbrv_of\<close> stands for
  \<open>Sigmet_DataTypeAbbrv\<close>, and the two descriptors are the write ends of its pipes.
\<close>

definition ray_hdrs_fm_skt_rqst ::
  "('ty \<Rightarrow> string) \<Rightarrow> 'ty option \<Rightarrow> unsigned \<Rightarrow> int \<Rightarrow> int \<Rightarrow> SigmetRaw_Rqst" where
  "ray_hdrs_fm_skt_rqst abbrv_of type i_swp ray_hdr_fd1 err_fd1 =
     SigmetRaw_Rqst_Set_ErrFD
       (SigmetRaw_Rqst_Set_ShFD
          (SigmetRaw_Rqst_Set_DataType
             (SigmetRaw_Rqst_Set_Swp
                (SigmetRaw_Rqst_Set_SubCmd SigmetRaw_Rqst_Init SigmetRawRayHeaders) i_swp)
             (case type of Some t \<Rightarrow> abbrv_of t | None \<Rightarrow> []))
          ray_hdr_fd1)
       err_fd1"

text \<open>The calls that connect to the daemon; the others read a raw product file.\<close>

fun data_call_uses_daemon :: "'ty data_call \<Rightarrow> bool" where
  "data_call_uses_daemon (Data_fm_fl _ _ _ _ _) = False"
| "data_call_uses_daemon (Skt_to_txt _ _ _ _) = True"
| "data_call_uses_daemon (Skt_to_bin _ _ _ _) = True"

fun ray_headers_call_uses_daemon :: "'ty ray_headers_call \<Rightarrow> bool" where
  "ray_headers_call_uses_daemon (Ray_hdrs_fm_fl _ _ _ _) = False"
| "ray_headers_call_uses_daemon (Ray_hdrs_fm_skt _ _ _ _) = True"

fun contacts_daemon :: "('call \<Rightarrow> bool) \<Rightarrow> 'call main_result \<Rightarrow> bool" where
  "contacts_daemon uses (Exit _ _) = False"
| "contacts_daemon uses (Call c) = uses c"

text \<open>
  An environment for examples: \<open>DB_DBZ\<close> and \<open>DB_XHDR\<close> are the registered types,
  \<open>/tmp/vol.raw\<close> is a regular file and \<open>/tmp/sigmet.skt\<close> a socket; the sweep index
  conversions know the texts \<open>0\<close> and \<open>1\<close>.
\<close>

datatype example_type = DB_XHDR | DB_DBZ

definition example_env :: "example_type cli_env" where
  "example_env =
     \<lparr>getenv_APP_NAME = None,
      basename = (\<lambda>p. if p = ''/usr/bin/data'' then ''data''
                       else if p = ''/usr/bin/ray_headers'' then ''ray_headers'' else p),
      Sigmet_DataTypeGet = (\<lambda>a. if a = ''DB_DBZ'' then Some DB_DBZ
                                 else if a = ''DB_XHDR'' then Some DB_XHDR else None),
      sscanf_u = (\<lambda>t. if t = ''0'' then Some 0 else if t = ''1'' then Some 1 else None),
      sscanf_d = (\<lambda>t. if t = ''0'' then Some 0 else if t = ''1'' then Some 1 else None),
      stat_kind = (\<lambda>p. if p = ''/tmp/vol.raw'' then Some Regular_File
                        else if p = ''/tmp/sigmet.skt'' then Some Socket else None)\<rparr>"

section \<open>ray\_headers.c: ray headers from a raw product file\<close>

text \<open>
  What the library and the operating system answer while \<open>ray_hdrs_fm_fl\<close> reads a raw
  product file: whether \<open>fopen\<close>, the two \<open>calloc\<close>s, \<open>malloc\<close> and \<open>Sigmet_VolTZSet\<close>
  (and, in \<open>data.c\<close>, the \<open>calloc\<close> of the output values) succeed, the volume header \<open>Sigmet_VolReadVHdr\<close> delivers (\<open>None\<close> when it fails), the
  index \<open>Sigmet_VolTypeIdx\<close> finds for a type (\<open>-1\<close> when the volume lacks it), the
  size \<open>Sigmet_VolIDatSz\<close> computes, and what \<open>Sigmet_VolReadDat\<close> returns and stores into
  the sweep headers and the \<open>[num_swps][num_rays][num_types]\<close> array of rays.
\<close>

record ('ty, 'dat) fl_answers =
  fopen_ok :: bool
  VolReadVHdr :: "'ty Sigmet_VolHdr option"
  VolTypeIdx :: "'ty option \<Rightarrow> int"
  calloc_swp_hdrs_ok :: bool
  calloc_rays_ok :: bool
  VolIDatSz :: nat
  malloc_dat_buf_ok :: bool
  calloc_dat_ok :: bool
  VolReadDat_rd :: nat
  VolReadDat_swp_hdrs :: "Sigmet_SwpHdr list"
  VolReadDat_rays :: "'dat Sigmet_Ray list list list"
  VolTZSet_ok :: bool

text \<open>
  The library functions on times and values: \<open>Sigmet_DTime\<close>, \<open>Sigmet_BkTime\<close> (\<open>None\<close>
  when it returns 0, otherwise year, month, day, hour, minute and second), the
  conversion of one storage value of a type, \<open>Sigmet_DataType_PrintFmt\<close> (\<open>None\<close> for a null
  pointer), and the rounding of the two formats. \<open>sigmet.h\<close> does not say what
  \<open>Sigmet_DataTypeStorToVal\<close> does when its input pointer is null: \<open>stor_null_returns\<close>
  tells whether the library then returns without writing to the output; if not, the call
  is undefined.
\<close>

record ('ty, 'dat) sigmet_lib =
  DTime :: "Sigmet_YMDS_Tm \<Rightarrow> fp"
  BkTime :: "fp \<Rightarrow> (int \<times> int \<times> int \<times> int \<times> int \<times> fp) option"
  stor_to_val :: "'ty \<Rightarrow> 'dat \<Rightarrow> fp"
  stor_null_returns :: bool
  PrintFmt :: "'ty \<Rightarrow> string option"
  rounding :: fp_rounding

text \<open>
  How a function of a program ends: it calls \<open>exit\<close> with a status after writing to
  standard error, it returns, or it runs into undefined behaviour (an array index out of
  range, a null pointer read). \<open>Exits\<close> and \<open>Returns\<close> carry what it printed on standard
  output.
\<close>

datatype 'out run_result = Exits int string 'out | Returns 'out | Undefined_Behaviour

text \<open>\<open>rays[sw][r][y]\<close>, when the three indices are in range.\<close>

definition ray_at :: "'dat Sigmet_Ray list list list \<Rightarrow> nat \<Rightarrow> nat \<Rightarrow> int \<Rightarrow> 'dat Sigmet_Ray option" where
  "ray_at rays sw r y =
     (if sw < length rays \<and> r < length (rays ! sw) \<and> 0 \<le> y \<and> nat y < length (rays ! sw ! r)
      then Some (rays ! sw ! r ! nat y)
      else None)"

definition DEG_PER_RAD :: real where
  "DEG_PER_RAD = 57.29577951308232087648"

text \<open>One printed line: the arguments of \<open>printf(RAY_HDR_FMT, ...)\<close>.\<close>

record ray_hdr_line =
  ln_s :: nat
  ln_r :: nat
  ln_time :: "int \<times> int \<times> int \<times> int \<times> int \<times> fp"
  ln_az0 :: fp
  ln_az1 :: fp
  ln_tilt0 :: fp
  ln_tilt1 :: fp
  ln_num_bins :: int

text \<open>
  \<open>Sigmet_BkTime\<close> applied to a time, with all six outputs set to 0 when it fails.
\<close>

definition broken_down ::
  "('ty, 'dat) sigmet_lib \<Rightarrow> fp \<Rightarrow> int \<times> int \<times> int \<times> int \<times> int \<times> fp" where
  "broken_down lib t = (case BkTime lib t of None \<Rightarrow> (0, 0, 0, 0, 0, Num 0) | Some b \<Rightarrow> b)"

text \<open>
  The time offset \<open>ray_tm\<close> of one ray. The \<open>float\<close> is initialised to \<open>NAN\<close>. With
  extended headers, \<open>Sigmet_DataTypeStorToVal\<close> is called to convert one value from the
  start of the data of the ray's \<open>DB_XHDR\<close> entry into it, whether or not that data
  pointer is null; without them it receives the ray header's \<open>tm\<close>. A null type makes
  the call undefined.
\<close>

definition ray_tm_offset ::
  "('ty, 'dat) sigmet_lib \<Rightarrow> bool \<Rightarrow> 'ty option \<Rightarrow> 'dat Sigmet_Ray list list list \<Rightarrow>
     int \<Rightarrow> nat \<Rightarrow> nat \<Rightarrow> Sigmet_RayHdr \<Rightarrow> fp option" where
  "ray_tm_offset lib hav_xhdr xhdr rays y_hxdr sw r hdr =
     (let ray_tm = [NaN]
      in if hav_xhdr then
           (case ray_at rays sw r y_hxdr of
              None \<Rightarrow> None
            | Some xray \<Rightarrow>
                (case xhdr of
                   None \<Rightarrow> None
                 | Some xt \<Rightarrow>
                     (case dat xray of
                        None \<Rightarrow> if stor_null_returns lib then Some (ray_tm ! 0) else None
                      | Some d \<Rightarrow>
                          (case Sigmet_DataTypeStorToVal (stor_to_val lib) xt 1 ray_tm d of
                             None \<Rightarrow> None
                           | Some out \<Rightarrow> Some (out ! 0)))))
         else Some (float_of_unsigned (rounding lib) (tm hdr)))"

text \<open>The body of the inner loop: the line for ray \<open>r\<close> of sweep \<open>sw\<close>.\<close>

definition ray_hdrs_fm_fl_line ::
  "('ty, 'dat) sigmet_lib \<Rightarrow> bool \<Rightarrow> 'ty option \<Rightarrow> 'dat Sigmet_Ray list list list \<Rightarrow>
     unsigned \<Rightarrow> int \<Rightarrow> fp \<Rightarrow> nat \<Rightarrow> nat \<Rightarrow> ray_hdr_line option" where
  "ray_hdrs_fm_fl_line lib hav_xhdr xhdr rays y y_hxdr swp_time sw r =
     (case ray_at rays sw r (int (unat y)) of
        None \<Rightarrow> None
      | Some ray \<Rightarrow>
          (case ray_tm_offset lib hav_xhdr xhdr rays y_hxdr sw r (ray_hdr ray) of
             None \<Rightarrow> None
           | Some ray_tm \<Rightarrow>
               Some \<lparr>ln_s = sw, ln_r = r,
                     ln_time = broken_down lib (fp_add (to_double (rounding lib)) swp_time ray_tm),
                     ln_az0 = fp_mul (to_double (rounding lib)) (az0 (ray_hdr ray)) (Num DEG_PER_RAD),
                     ln_az1 = fp_mul (to_double (rounding lib)) (az1 (ray_hdr ray)) (Num DEG_PER_RAD),
                     ln_tilt0 = fp_mul (to_double (rounding lib)) (tilt0 (ray_hdr ray)) (Num DEG_PER_RAD),
                     ln_tilt1 = fp_mul (to_double (rounding lib)) (tilt1 (ray_hdr ray)) (Num DEG_PER_RAD),
                     ln_num_bins = num_bins (ray_hdr ray)\<rparr>))"

text \<open>
  The two loops. The counters \<open>s\<close> and \<open>r\<close> are \<open>unsigned\<close> and stay below their bounds,
  so they run through \<open>s0, ..., s1 - 1\<close> and \<open>0, ..., num_rays - 1\<close> without wrapping.
\<close>

definition ray_hdrs_fm_fl_swp ::
  "('ty, 'dat) sigmet_lib \<Rightarrow> bool \<Rightarrow> 'ty option \<Rightarrow> Sigmet_SwpHdr list \<Rightarrow>
     'dat Sigmet_Ray list list list \<Rightarrow> unsigned \<Rightarrow> unsigned \<Rightarrow> int \<Rightarrow> nat \<Rightarrow>
     ray_hdr_line list option" where
  "ray_hdrs_fm_fl_swp lib hav_xhdr xhdr swp_hdrs rays n_rays y y_hxdr sw =
     (if sw < length swp_hdrs then
        those (map (ray_hdrs_fm_fl_line lib hav_xhdr xhdr rays y y_hxdr
                      (DTime lib (swp_tm (swp_hdrs ! sw))) sw)
                 [0..<unat n_rays])
      else None)"

definition swp_range :: "unsigned \<Rightarrow> unsigned \<Rightarrow> nat list" where
  "swp_range i_swp n_swps =
     (let s0 = (if SigmetRaw_GetAllSwps i_swp then 0 else i_swp);
          s1 = (if SigmetRaw_GetAllSwps i_swp then n_swps else i_swp + 1)
      in [unat s0..<unat s1])"

definition ray_hdrs_fm_fl_print ::
  "('ty, 'dat) sigmet_lib \<Rightarrow> bool \<Rightarrow> 'ty option \<Rightarrow> Sigmet_SwpHdr list \<Rightarrow>
     'dat Sigmet_Ray list list list \<Rightarrow> unsigned \<Rightarrow> unsigned \<Rightarrow> unsigned \<Rightarrow> int \<Rightarrow> unsigned \<Rightarrow>
     ray_hdr_line list option" where
  "ray_hdrs_fm_fl_print lib hav_xhdr xhdr swp_hdrs rays n_swps n_rays y y_hxdr i_swp =
     map_option concat
       (those (map (ray_hdrs_fm_fl_swp lib hav_xhdr xhdr swp_hdrs rays n_rays y y_hxdr)
                 (swp_range i_swp n_swps)))"

text \<open>The function, from \<open>fopen\<close> to the end of the loops.\<close>

definition ray_hdrs_fm_fl ::
  "'ty cli_env \<Rightarrow> ('ty, 'dat) sigmet_lib \<Rightarrow> ('ty, 'dat) fl_answers \<Rightarrow>
     string \<Rightarrow> 'ty option \<Rightarrow> unsigned \<Rightarrow> string \<Rightarrow> ray_hdr_line list run_result" where
  "ray_hdrs_fm_fl env lib fl path type i_swp cmd =
     (if \<not> fopen_ok fl then
        Exits EXIT_FAILURE (cmd @ '': could not open raw product file '' @ path @ ''. '') []
      else
        (case VolReadVHdr fl of
           None \<Rightarrow>
             Exits EXIT_FAILURE (cmd @ '': could not read volume headers from '' @ path @ ''. '') []
         | Some vol_hdr \<Rightarrow>
             (let n_swps = Sigmet_VolNumSwps vol_hdr
              in if \<not> SigmetRaw_GetAllSwps i_swp \<and> i_swp \<ge> n_swps then
                   Exits EXIT_FAILURE (cmd @ '': sweep index out of range. Volume '' @ path) []
                 else
                   (let hav_xhdr = Sigmet_VolXHdr vol_hdr
                    in if type \<noteq> None \<and> VolTypeIdx fl type = -1 then
                         Exits EXIT_FAILURE (cmd @ '': data type is not in volume at '' @ path) []
                       else
                         (let y = (if type \<noteq> None then word_of_int (VolTypeIdx fl type)
                                   else if hav_xhdr then 1 else 0);
                              n_rays = Sigmet_VolNumRays vol_hdr
                          in if \<not> calloc_swp_hdrs_ok fl then
                               Exits EXIT_FAILURE
                                 (cmd @ '' could not allocate memory for sweep headers'') []
                             else if \<not> calloc_rays_ok fl then
                               Exits EXIT_FAILURE
                                 (cmd @ '' could not allocate memory for array of ray structures'') []
                             else if hav_xhdr \<and> VolIDatSz fl = 0 then
                               Exits EXIT_FAILURE
                                 (cmd @ '': could not determine size of input data buffer. '') []
                             else if hav_xhdr \<and> \<not> malloc_dat_buf_ok fl then
                               Exits EXIT_FAILURE
                                 (cmd @ '': could not allocate memory for data.'') []
                             else if VolReadDat_rd fl = 0 then
                               Exits EXIT_FAILURE
                                 (cmd @ '': raw product file '' @ path @ '' has no data. '') []
                             else if \<not> VolTZSet_ok fl then
                               Exits EXIT_FAILURE
                                 (cmd @ '': could not set time zone from '' @ path @ ''.'') []
                             else
                               (let xhdr = Sigmet_DataTypeGet env ''DB_XHDR'';
                                    y_hxdr = VolTypeIdx fl xhdr
                                in case ray_hdrs_fm_fl_print lib hav_xhdr xhdr
                                          (VolReadDat_swp_hdrs fl) (VolReadDat_rays fl)
                                          n_swps n_rays y y_hxdr i_swp of
                                     None \<Rightarrow> Undefined_Behaviour
                                   | Some lines \<Rightarrow> Returns lines))))))"

text \<open>
  \<open>rays\<close> is declared \<open>struct Sigmet_Ray (*rays)[num_rays][num_types]\<close> and allocated for
  \<open>num_swps\<close> elements: an array of the three dimensions.
\<close>

definition dimensioned :: "'a list list list \<Rightarrow> nat \<Rightarrow> nat \<Rightarrow> nat \<Rightarrow> bool" where
  "dimensioned rays n_swps n_rays n_types \<longleftrightarrow>
     length rays = n_swps \<and>
     (\<forall>rs \<in> set rays. length rs = n_rays \<and> (\<forall>ts \<in> set rs. length ts = n_types))"

text \<open>
  When \<open>ray_hdrs_fm_fl\<close> gets as far as printing, and prints without undefined behaviour:
  the file opens and \<open>vol_hdr\<close> is read from it; the sweep index is \<open>UINT_MAX\<close> or
  below the number of sweeps; the type index used (that of the requested type, or of the
  first data type after the extended header) is within the volume's types; the
  allocations, the read of the data and the time zone succeed; the sweep headers and the
  rays have the dimensions they were allocated with; and, if the volume has extended
  headers, \<open>DB_XHDR\<close> is a registered type of the volume and every ray's extended-header
  data either holds at least one value or is a null pointer that the library's conversion
  leaves alone.
\<close>

definition ray_hdrs_fm_fl_defined ::
  "'ty cli_env \<Rightarrow> ('ty, 'dat) sigmet_lib \<Rightarrow> ('ty, 'dat) fl_answers \<Rightarrow> 'ty Sigmet_VolHdr \<Rightarrow>
     'ty option \<Rightarrow> unsigned \<Rightarrow> bool" where
  "ray_hdrs_fm_fl_defined env lib fl vol_hdr type i_swp \<longleftrightarrow>
     fopen_ok fl \<and> VolReadVHdr fl = Some vol_hdr \<and>
     (SigmetRaw_GetAllSwps i_swp \<or> i_swp < Sigmet_VolNumSwps vol_hdr) \<and>
     (type \<noteq> None \<longrightarrow>
        0 \<le> VolTypeIdx fl type \<and>
        VolTypeIdx fl type < int (unat (Sigmet_VolNumTypes vol_hdr))) \<and>
     (type = None \<longrightarrow>
        (if Sigmet_VolXHdr vol_hdr then 1 else 0) < unat (Sigmet_VolNumTypes vol_hdr)) \<and>
     calloc_swp_hdrs_ok fl \<and> calloc_rays_ok fl \<and>
     (Sigmet_VolXHdr vol_hdr \<longrightarrow> VolIDatSz fl \<noteq> 0 \<and> malloc_dat_buf_ok fl) \<and>
     VolReadDat_rd fl \<noteq> 0 \<and> VolTZSet_ok fl \<and>
     length (VolReadDat_swp_hdrs fl) = unat (Sigmet_VolNumSwps vol_hdr) \<and>
     dimensioned (VolReadDat_rays fl) (unat (Sigmet_VolNumSwps vol_hdr))
       (unat (Sigmet_VolNumRays vol_hdr)) (unat (Sigmet_VolNumTypes vol_hdr)) \<and>
     (Sigmet_VolXHdr vol_hdr \<longrightarrow>
        (case Sigmet_DataTypeGet env ''DB_XHDR'' of
           None \<Rightarrow> False
         | Some xt \<Rightarrow>
             0 \<le> VolTypeIdx fl (Some xt) \<and>
             VolTypeIdx fl (Some xt) < int (unat (Sigmet_VolNumTypes vol_hdr)) \<and>
             (\<forall>rs \<in> set (VolReadDat_rays fl). \<forall>ts \<in> set rs.
                case dat (ts ! nat (VolTypeIdx fl (Some xt))) of
                  None \<Rightarrow> stor_null_returns lib
                | Some d \<Rightarrow> d \<noteq> [])))"

text \<open>
  The ray time in the words of the specification, for ray \<open>r\<close> of sweep \<open>sw\<close> of the
  volume read from the file: the sweep's start time plus the ray's offset in seconds. If
  the volume's extended-header bit is set, the offset is the first data word of the ray's
  extended-header chunk, and the time is \<open>NAN\<close> when the ray has no such chunk; otherwise
  the offset is the time field of the ray's header for the type asked for (the first type
  of the volume by default).
\<close>

definition spec_ray_time ::
  "'ty cli_env \<Rightarrow> ('ty, 'dat) sigmet_lib \<Rightarrow> ('ty, 'dat) fl_answers \<Rightarrow> 'ty Sigmet_VolHdr \<Rightarrow>
     'ty option \<Rightarrow> nat \<Rightarrow> nat \<Rightarrow> fp" where
  "spec_ray_time env lib fl vol_hdr type sw r =
     (let sweep_time = DTime lib (swp_tm (VolReadDat_swp_hdrs fl ! sw));
          chunks = VolReadDat_rays fl ! sw ! r
      in if Sigmet_VolXHdr vol_hdr then
           (case Sigmet_DataTypeGet env ''DB_XHDR'' of
              None \<Rightarrow> NaN
            | Some xt \<Rightarrow>
                (case dat (chunks ! nat (VolTypeIdx fl (Some xt))) of
                   None \<Rightarrow> NaN
                 | Some words \<Rightarrow>
                     fp_add (to_double (rounding lib)) sweep_time (stor_to_val lib xt (hd words))))
         else
           fp_add (to_double (rounding lib)) sweep_time
             (float_of_unsigned (rounding lib)
                (tm (ray_hdr (chunks ! (case type of None \<Rightarrow> 0 | Some t \<Rightarrow> nat (VolTypeIdx fl type)))))))"

text \<open>
  A library, a volume and a file for examples: times are seconds of the day, rounding is
  exact, and a storage value \<open>v\<close> of the extended header stands for \<open>v\<close> milliseconds.
  The library's conversion leaves a null input alone. The volume has two sweeps of two
  rays and the types \<open>DB_XHDR\<close> and \<open>DB_DBZ\<close>; ray 1 of sweep 0 is absent.
\<close>

definition example_lib :: "(example_type, nat) sigmet_lib" where
  "example_lib =
     \<lparr>DTime = (\<lambda>t. Num (real_of_int (sec t))),
      BkTime = (\<lambda>t. case t of NaN \<Rightarrow> None | Num x \<Rightarrow> Some (2020, 1, 1, 0, 0, Num x)),
      stor_to_val = (\<lambda>ty v. case ty of DB_XHDR \<Rightarrow> Num (real v / 1000) | DB_DBZ \<Rightarrow> Num (real v)),
      stor_null_returns = True,
      PrintFmt = (\<lambda>ty. Some ''%6.1f ''),
      rounding = \<lparr>to_float = (\<lambda>x. x), to_double = (\<lambda>x. x)\<rparr>\<rparr>"

definition example_ymds :: "int \<Rightarrow> Sigmet_YMDS_Tm" where
  "example_ymds n = \<lparr>sec = n, msec = 0, dst = False, utc = True, ldst = False,
                     yr = 2020, mon = 1, day = 1\<rparr>"

definition example_ray :: "int \<Rightarrow> nat \<Rightarrow> nat list option \<Rightarrow> nat Sigmet_Ray" where
  "example_ray nb t d =
     \<lparr>ray_hdr = \<lparr>az0 = Num 0, tilt0 = Num 0, az1 = Num 0, tilt1 = Num 0, num_bins = nb,
                 tm = of_nat t\<rparr>,
      dat = d\<rparr>"

definition example_rays :: "nat Sigmet_Ray list list list" where
  "example_rays =
     [[[example_ray 1 5 (Some [5250]), example_ray 3 5 (Some [10, 20, 30])],
       [example_ray 0 0 None, example_ray 0 0 None]],
      [[example_ray 1 7 (Some [7750]), example_ray 2 7 (Some [40, 50])],
       [example_ray 1 8 (Some [8125]), example_ray 3 8 (Some [60, 70, 80])]]]"

definition example_swp_hdrs :: "Sigmet_SwpHdr list" where
  "example_swp_hdrs =
     [\<lparr>swp_tm = example_ymds 100, angl = Num 0\<rparr>, \<lparr>swp_tm = example_ymds 200, angl = Num 0\<rparr>]"

definition example_vol_hdr :: "example_type Sigmet_VolHdr" where
  "example_vol_hdr =
     \<lparr>task_scan_info_num_swps = 2, ingst_cfg_num_rays = 2, task_rng_info_num_bins_out = 3,
      curr_data_mask_mask_wd0 = 5, num_types = 2, types = [DB_XHDR, DB_DBZ]\<rparr>"

definition example_fl :: "(example_type, nat) fl_answers" where
  "example_fl =
     \<lparr>fopen_ok = True, VolReadVHdr = Some example_vol_hdr,
      VolTypeIdx = (\<lambda>t. case t of Some DB_XHDR \<Rightarrow> 0 | Some DB_DBZ \<Rightarrow> 1 | None \<Rightarrow> -1),
      calloc_swp_hdrs_ok = True, calloc_rays_ok = True, VolIDatSz = 64,
      malloc_dat_buf_ok = True, calloc_dat_ok = True, VolReadDat_rd = 4, VolReadDat_swp_hdrs = example_swp_hdrs,
      VolReadDat_rays = example_rays, VolTZSet_ok = True\<rparr>"


section \<open>data.c: the values of one sweep as text\<close>










section \<open>data.c: the values of one sweep from the daemon, as text\<close>






section \<open>sigmet\_raw.h: the daemon's response, and how the clients receive it\<close>

text \<open>
  The response is an \<open>iovec\<close> array of \<open>SIGMETRAW_RPS_IOVLEN\<close> elements, indexed by the
  enumerators below: ``All array elements are in all responses, although not all may be
  used.''
\<close>

definition SIGMETRAW_RPS_IOVLEN :: nat where
  "SIGMETRAW_RPS_IOVLEN = 7"

datatype rps_index =
  SigmetRawRpsStatus | SigmetRawRpsNumSwps | SigmetRawRpsNumRays | SigmetRawRpsNumSwpBins |
  SigmetRawRpsSwpTm | SigmetRawRpsTZ | SigmetRawRpsErr

fun rps_index_value :: "rps_index \<Rightarrow> nat" where
  "rps_index_value SigmetRawRpsStatus = 0"
| "rps_index_value SigmetRawRpsNumSwps = 1"
| "rps_index_value SigmetRawRpsNumRays = 2"
| "rps_index_value SigmetRawRpsNumSwpBins = 3"
| "rps_index_value SigmetRawRpsSwpTm = 4"
| "rps_index_value SigmetRawRpsTZ = 5"
| "rps_index_value SigmetRawRpsErr = 6"

definition rps_indices :: "rps_index list" where
  "rps_indices =
     [SigmetRawRpsStatus, SigmetRawRpsNumSwps, SigmetRawRpsNumRays, SigmetRawRpsNumSwpBins,
      SigmetRawRpsSwpTm, SigmetRawRpsTZ, SigmetRawRpsErr]"

definition sizeof_double :: nat where
  "sizeof_double = 8"

text \<open>
  Modelled from the spec: the daemon's \<open>sendmsg\<close> of a response; the daemon is a separate
  program. Every response consists of the seven elements in the order of the
  enumerators: status (an \<open>enum\<close>), number of sweeps, number of rays per sweep, number of
  bins in the sweep (\<open>int\<close>s), sweep time (a \<open>double\<close>), time zone (\<open>SIGMET_TZ_STRLEN\<close>
  bytes) and the error element, whose size \<open>err_len\<close> the spec leaves open. The socket is
  a stream socket, so what arrives is the bytes of the elements one after the other.
\<close>

definition rps_elem_len :: "nat \<Rightarrow> rps_index \<Rightarrow> nat" where
  "rps_elem_len err_len i =
     (case i of
        SigmetRawRpsStatus \<Rightarrow> sizeof_int
      | SigmetRawRpsNumSwps \<Rightarrow> sizeof_int
      | SigmetRawRpsNumRays \<Rightarrow> sizeof_int
      | SigmetRawRpsNumSwpBins \<Rightarrow> sizeof_int
      | SigmetRawRpsSwpTm \<Rightarrow> sizeof_double
      | SigmetRawRpsTZ \<Rightarrow> SIGMET_TZ_STRLEN
      | SigmetRawRpsErr \<Rightarrow> err_len)"

text \<open>
  Modelled from the spec: the sizes of the elements of a response, and the bytes the
  daemon's \<open>sendmsg\<close> puts on the stream.
\<close>

definition rps_well_formed :: "nat \<Rightarrow> uint8_t list list \<Rightarrow> bool" where
  "rps_well_formed err_len elems = (map length elems = map (rps_elem_len err_len) rps_indices)"

text \<open>Modelled from the spec: the daemon's \<open>sendmsg\<close>, the elements one after the other.\<close>

definition daemon_sendmsg :: "uint8_t list list \<Rightarrow> uint8_t list" where
  "daemon_sendmsg elems = concat elems"

text \<open>
  \<open>recvmsg\<close> on the stream: the buffers of the \<open>iovec\<close> array are filled in order, each
  with as many of the next bytes as its \<open>iov_len\<close> says.
\<close>

fun recvmsg_scatter :: "nat list \<Rightarrow> uint8_t list \<Rightarrow> uint8_t list list" where
  "recvmsg_scatter [] bytes = []"
| "recvmsg_scatter (n # ns) bytes = take n bytes # recvmsg_scatter ns (drop n bytes)"

text \<open>
  The \<open>iovec\<close> arrays the clients pass to \<open>recvmsg\<close>: for each buffer, the response element
  the variable behind it stands for, and its \<open>iov_len\<close>. \<open>ray_hdrs_fm_skt\<close> receives
  into \<open>status\<close>, \<open>num_swps\<close>, \<open>num_rays\<close> and \<open>tz\<close>; \<open>skt_to_txt\<close> receives the response
  to its ray-header request into \<open>rh_stat\<close>, \<open>num_swps\<close>, \<open>num_rays\<close>, \<open>swp_tm\<close> and
  \<open>tz\<close>, and the response to its data request into \<open>dat_stat\<close>; \<open>skt_to_bin\<close> receives
  into \<open>status\<close>.
\<close>

definition ray_hdrs_fm_skt_rps_iov :: "(rps_index \<times> nat) list" where
  "ray_hdrs_fm_skt_rps_iov =
     [(SigmetRawRpsStatus, sizeof_int), (SigmetRawRpsNumSwps, sizeof_int),
      (SigmetRawRpsNumRays, sizeof_int), (SigmetRawRpsTZ, SIGMET_TZ_STRLEN)]"

definition skt_to_txt_rh_rps_iov :: "(rps_index \<times> nat) list" where
  "skt_to_txt_rh_rps_iov =
     [(SigmetRawRpsStatus, sizeof_int), (SigmetRawRpsNumSwps, sizeof_int),
      (SigmetRawRpsNumRays, sizeof_int), (SigmetRawRpsSwpTm, sizeof_double),
      (SigmetRawRpsTZ, SIGMET_TZ_STRLEN)]"

definition skt_to_txt_dat_rps_iov :: "(rps_index \<times> nat) list" where
  "skt_to_txt_dat_rps_iov = [(SigmetRawRpsStatus, sizeof_int)]"

definition skt_to_bin_rps_iov :: "(rps_index \<times> nat) list" where
  "skt_to_bin_rps_iov = [(SigmetRawRpsStatus, sizeof_int)]"

text \<open>What a client's buffers hold after \<open>recvmsg\<close> of a response.\<close>

definition client_recvmsg :: "(rps_index \<times> nat) list \<Rightarrow> uint8_t list list \<Rightarrow> uint8_t list list" where
  "client_recvmsg iov elems = recvmsg_scatter (map snd iov) (daemon_sendmsg elems)"

text \<open>
  A client parses the response under the fixed shape when its \<open>iovec\<close> array has the seven
  elements in their order, each with its length.
\<close>

definition fixed_shape :: "nat \<Rightarrow> (rps_index \<times> nat) list" where
  "fixed_shape err_len = map (\<lambda>i. (i, rps_elem_len err_len i)) rps_indices"

text \<open>
  A response for examples: status \<open>SigmetRawOkay\<close>, 1 sweep, 360 rays, 996 bins, a sweep
  time, the time zone \<open>UTC\<close> and four zero bytes for the error element (little-endian).
\<close>

definition example_response :: "uint8_t list list" where
  "example_response =
     [[1, 0, 0, 0], [1, 0, 0, 0], [0x68, 1, 0, 0], [0xE4, 3, 0, 0],
      [0, 0, 0x80, 0x5B, 0x13, 0xC6, 0xD7, 0x41],
      [0x55, 0x54, 0x43, 0, 0, 0, 0, 0, 0, 0, 0],
      [0, 0, 0, 0]]"

section \<open>sigmet.h: binary angles\<close>

text \<open>
  Modelled from the spec: \<open>Sigmet_Bin2Rad\<close> and \<open>Sigmet_Bin4Rad\<close>, declared in \<open>sigmet.h\<close>
  and defined elsewhere in the library. A binary angle \<open>u\<close> of \<open>N\<close> bits becomes
  \<open>(u / 2\<^sup>N) \<times> 2\<pi>\<close>, computed in \<open>double\<close>: the quotient, the constant \<open>2\<pi>\<close> and the
  product are each rounded by \<open>rnd\<close>.
\<close>

definition Sigmet_Bin2Rad :: "(real \<Rightarrow> real) \<Rightarrow> 16 word \<Rightarrow> real" where
  "Sigmet_Bin2Rad rnd u = rnd (rnd (real (unat u) / 65536) * rnd (2 * pi))"

text \<open>Modelled from the spec: \<open>Sigmet_Bin4Rad\<close>, likewise for 32 bits.\<close>

definition Sigmet_Bin4Rad :: "(real \<Rightarrow> real) \<Rightarrow> 32 word \<Rightarrow> real" where
  "Sigmet_Bin4Rad rnd u = rnd (rnd (real (unat u) / 4294967296) * rnd (2 * pi))"

text \<open>
  A rounding function of relative error at most \<open>e\<close>; IEEE double precision rounds to
  nearest with \<open>e = 2\<^sup>-\<^sup>5\<^sup>3\<close>.
\<close>

definition rounds_within :: "real \<Rightarrow> (real \<Rightarrow> real) \<Rightarrow> bool" where
  "rounds_within e rnd = (\<forall>x. \<bar>rnd x - x\<bar> \<le> e * \<bar>x\<bar>)"



section \<open>Properties of copy\_bits\_packed\_right\<close>

lemma bit_val_bit: "bit ((drop_bit sh (w::uint8_t)) AND 1) k = (k = 0 \<and> bit w sh)"
  by (auto simp: bit_simps)

lemma set_bit_other:
  fixes w v :: uint8_t
  assumes "k < 8" "j < 8"
  shows "bit (w OR push_bit k (v AND 1)) j = (bit w j \<or> (j = k \<and> bit v 0))"
  using assms by (auto simp: bit_simps)

lemma get_bit_update:
  assumes "k div 8 < length d"
  shows "get_bit (d[k div 8 := (d ! (k div 8)) OR push_bit (k mod 8) ((drop_bit sh w) AND 1)]) p
         = (get_bit d p \<or> (p = k \<and> bit w sh))"
proof (cases "p div 8 = k div 8")
  case True
  have "p = k \<longleftrightarrow> p mod 8 = k mod 8"
    using True by (metis div_mult_mod_eq)
  then show ?thesis
    using True assms by (auto simp: get_bit_def bit_simps)
next
  case False
  then show ?thesis
    by (auto simp: get_bit_def)
qed

lemma pow2_61: "(2::nat) ^ 61 = 2305843009213693952"
  by simp

lemma pow2_64: "(2::nat) ^ 64 = 18446744073709551616"
  by simp

lemma unat_div8: "unat ((x::size_t) div 8) = unat x div 8"
  by (simp add: unat_div)

lemma unat_mod8: "unat ((x::size_t) mod 8) = unat x mod 8"
  by (simp add: unat_mod)

lemma copy_bits_loop_correct:
  assumes "i \<le> n"
      and "unat o' + unat n \<le> 8 * length src"
      and "unat o' + unat n \<le> 2 ^ 64"
      and "unat n \<le> 8 * length dest"
  shows "\<exists>d. copy_bits_loop src o' n i dest = Some d \<and> length d = length dest \<and>
           (\<forall>p. get_bit d p =
              (get_bit dest p \<or> (unat i \<le> p \<and> p < unat n \<and> get_bit src (unat o' + p))))"
  using assms
proof (induction src o' n i dest rule: copy_bits_loop.induct)
  case (1 src o' n i dest)
  show ?case
  proof (cases "i < n")
    case False
    with "1.prems" have "i = n" by simp
    then show ?thesis
      by (subst copy_bits_loop.simps) auto
  next
    case True
    then have ltn: "unat i < unat n"
      by (simp add: word_less_nat_alt)
    have "unat n < 2 ^ 64"
      using unsigned_less [of n] by simp
    with ltn have "(unat i + 1) mod 2 ^ 64 = unat i + 1"
      by simp
    then have suc: "unat (i + 1) = Suc (unat i)"
      by (simp add: unat_word_ariths)
    have pos: "unat (o' + i) = unat o' + unat i"
      using ltn "1.prems"(3) by (simp add: unat_word_ariths)
    have sb: "unat ((o' + i) div 8) < length src"
      using ltn "1.prems"(2) pos by (simp add: unat_div8)
    have db: "unat (i div 8) < length dest"
      using ltn "1.prems"(4) by (simp add: unat_div8)
    let ?dest = "dest[unat (i div 8) := (dest ! unat (i div 8)) OR
          push_bit (unat (i mod 8)) ((drop_bit (unat ((o' + i) mod 8)) (src ! unat ((o' + i) div 8))) AND 1)]"
    have le: "i + 1 \<le> n"
      using True by (simp add: inc_le)
    have "\<exists>d. copy_bits_loop src o' n (i + 1) ?dest = Some d \<and> length d = length ?dest \<and>
           (\<forall>p. get_bit d p =
              (get_bit ?dest p \<or> (unat (i + 1) \<le> p \<and> p < unat n \<and> get_bit src (unat o' + p))))"
    proof (rule "1.IH" [OF True refl refl refl sb refl refl refl db le "1.prems"(2) "1.prems"(3)])
      show "unat n \<le> 8 * length ?dest"
        using "1.prems"(4) by simp
    qed
    then obtain d where d: "copy_bits_loop src o' n (i + 1) ?dest = Some d" "length d = length dest"
      "\<And>p. get_bit d p =
              (get_bit ?dest p \<or> (unat (i + 1) \<le> p \<and> p < unat n \<and> get_bit src (unat o' + p)))"
      by auto
    have upd: "\<And>p. get_bit ?dest p = (get_bit dest p \<or> (p = unat i \<and> get_bit src (unat o' + unat i)))"
      using db get_bit_update [where k="unat i" and d=dest and sh="unat ((o' + i) mod 8)" and w="src ! unat ((o' + i) div 8)"]
      by (simp add: unat_div8 unat_mod8 pos) (simp add: get_bit_def)
    have "copy_bits_loop src o' n i dest = Some d"
      using True sb db d(1) by (subst copy_bits_loop.simps) (simp add: Let_def)
    moreover have "get_bit d p =
              (get_bit dest p \<or> (unat i \<le> p \<and> p < unat n \<and> get_bit src (unat o' + p)))" for p
    proof -
      have "get_bit d p = ((get_bit dest p \<or> (p = unat i \<and> get_bit src (unat o' + unat i))) \<or>
               (Suc (unat i) \<le> p \<and> p < unat n \<and> get_bit src (unat o' + p)))"
        by (simp only: d(3) upd suc)
      also have "\<dots> = (get_bit dest p \<or> (unat i \<le> p \<and> p < unat n \<and> get_bit src (unat o' + p)))"
        using ltn by (cases "p = unat i") auto
      finally show ?thesis .
    qed
    ultimately show ?thesis
      using d(2) by simp
  qed
qed


lemma get_bit_memset_zero:
  assumes "memset_zero dest len = Some d0"
  shows "length d0 = length dest"
    and "p < 8 * unat len \<Longrightarrow> \<not> get_bit d0 p"
proof -
  from assms have le: "unat len \<le> length dest"
    and d0: "d0 = replicate (unat len) 0 @ drop (unat len) dest"
    by (auto simp: memset_zero_def split: if_splits)
  show "length d0 = length dest"
    using le d0 by simp
  assume "p < 8 * unat len"
  then have "p div 8 < unat len"
    by simp
  then show "\<not> get_bit d0 p"
    by (simp add: d0 get_bit_def nth_append)
qed

text \<open>
  Claim C1. For a source buffer holding at least \<open>o + n\<close> bits and a destination
  holding at least \<open>\<lceil>n / 8\<rceil>\<close> bytes, \<open>copy_bits_packed_right\<close> succeeds; bit \<open>i\<close>
  of the destination (least significant bit first) equals source bit \<open>o + i\<close> for every
  \<open>i < n\<close>, and every destination bit from position \<open>n\<close> up to the end of the
  \<open>\<lceil>n / 8\<rceil>\<close> zeroed bytes is 0. Both buffers are shorter than \<open>2\<^sup>6\<^sup>1\<close> bytes, so
  that each of their bits has a \<open>size_t\<close> position.
\<close>

theorem copy_bits_packed_right_correct:
  assumes "unat o' + unat n \<le> 8 * length src"
      and "length src < 2 ^ 61"
      and "(unat n + 7) div 8 \<le> length dest"
      and "length dest < 2 ^ 61"
  shows "\<exists>d. copy_bits_packed_right src dest o' n = Some d \<and> length d = length dest \<and>
           (\<forall>i<unat n. get_bit d i = get_bit src (unat o' + i)) \<and>
           (\<forall>p. unat n \<le> p \<and> p < 8 * ((unat n + 7) div 8) \<longrightarrow> \<not> get_bit d p)"
proof -
  have n7: "unat n + 7 < 2 ^ 64"
    using assms(3,4) unfolding pow2_61 pow2_64 by linarith
  have "unat (n + 7) = unat n + 7"
    using n7 by (simp add: unat_word_ariths)
  then have len: "unat ((n + 7) div 8) = (unat n + 7) div 8"
    by (simp only: unat_div8)
  have le: "unat ((n + 7) div 8) \<le> length dest"
    using assms(3) by (simp only: len)
  define d0 where "d0 = replicate (unat ((n + 7) div 8)) 0 @ drop (unat ((n + 7) div 8)) dest"
  have d0: "memset_zero dest ((n + 7) div 8) = Some d0"
    unfolding memset_zero_def d0_def using le by (simp only: if_True)
  have ld0: "length d0 = length dest"
    by (rule get_bit_memset_zero(1) [OF d0])
  have z: "\<not> get_bit d0 p" if "p < 8 * ((unat n + 7) div 8)" for p
  proof -
    from that have "p < 8 * unat ((n + 7) div 8)"
      by (simp only: len)
    then show ?thesis
      by (rule get_bit_memset_zero(2) [OF d0])
  qed
  have fits: "unat n \<le> 8 * length d0"
    using assms(3) unfolding ld0 by linarith
  have nowrap: "unat o' + unat n \<le> 2 ^ 64"
    using assms(1,2) unfolding pow2_61 pow2_64 by linarith
  have "\<exists>d. copy_bits_loop src o' n 0 d0 = Some d \<and> length d = length d0 \<and>
           (\<forall>p. get_bit d p =
              (get_bit d0 p \<or> (unat (0::size_t) \<le> p \<and> p < unat n \<and> get_bit src (unat o' + p))))"
    by (rule copy_bits_loop_correct [OF word_zero_le assms(1) nowrap fits])
  then obtain d where d: "copy_bits_loop src o' n 0 d0 = Some d" "length d = length d0"
    "\<And>p. get_bit d p = (get_bit d0 p \<or> (p < unat n \<and> get_bit src (unat o' + p)))"
    by auto
  have res: "copy_bits_packed_right src dest o' n = Some d"
    by (simp add: copy_bits_packed_right_def d0 d(1))
  have low: "get_bit d i = get_bit src (unat o' + i)" if "i < unat n" for i
  proof -
    from that have "i < 8 * ((unat n + 7) div 8)"
      by linarith
    then have "\<not> get_bit d0 i"
      by (rule z)
    then show ?thesis
      using that by (simp add: d(3))
  qed
  have high: "\<not> get_bit d p" if "unat n \<le> p \<and> p < 8 * ((unat n + 7) div 8)" for p
  proof -
    from that have "\<not> get_bit d0 p"
      using z by blast
    then show ?thesis
      using that by (simp add: d(3))
  qed
  show ?thesis
    using res d(2) ld0 low high by auto
qed

theorem copy_bits_packed_right_correct_witness:
  "\<exists>d. copy_bits_packed_right [0xB5, 0x3C] [0xFF, 0xFF, 0xAA] 3 13 = Some d \<and>
       length d = length [0xFF, 0xFF, 0xAA :: uint8_t] \<and>
       (\<forall>i<unat (13 :: size_t). get_bit d i = get_bit [0xB5, 0x3C] (unat (3 :: size_t) + i)) \<and>
       (\<forall>p. unat (13 :: size_t) \<le> p \<and> p < 8 * ((unat (13 :: size_t) + 7) div 8) \<longrightarrow> \<not> get_bit d p)"
proof -
  have h1: "unat (3 :: size_t) + unat (13 :: size_t) \<le> 8 * length [0xB5, 0x3C :: uint8_t]"
    by simp
  have h2: "length [0xB5, 0x3C :: uint8_t] < 2 ^ 61"
    by (simp add: pow2_61)
  have h3: "(unat (13 :: size_t) + 7) div 8 \<le> length [0xFF, 0xFF, 0xAA :: uint8_t]"
    by simp
  have h4: "length [0xFF, 0xFF, 0xAA :: uint8_t] < 2 ^ 61"
    by (simp add: pow2_61)
  show ?thesis
    by (rule copy_bits_packed_right_correct [OF h1 h2 h3 h4])
qed

lemma copy_bits_packed_right_example:
  "copy_bits_packed_right [0xB5, 0x3C] [0xFF, 0xFF, 0xAA] 3 13 = Some [150, 7, 0xAA]"
  by code_simp

section \<open>Properties of create\_3d\_float\_array\<close>

lemma size_t_succ: "(i::size_t) < n \<Longrightarrow> unat (i + 1) = Suc (unat i)"
proof -
  assume "i < n"
  then have ltn: "unat i < unat n"
    by (simp add: word_less_nat_alt)
  have "unat n < 2 ^ 64"
    using unsigned_less [of n] by simp
  with ltn have "(unat i + 1) mod 2 ^ 64 = unat i + 1"
    by simp
  then show ?thesis
    by (simp add: unat_word_ariths)
qed

lemma size_t_mult_exact:
  "unat (a::size_t) * unat b < 2 ^ 64 \<Longrightarrow> unat (a * b) = unat a * unat b"
  using unat_mult_lem [of a b] by simp

lemma size_t_add_exact:
  "unat (a::size_t) + unat b < 2 ^ 64 \<Longrightarrow> unat (a + b) = unat a + unat b"
  using unat_add_lem [of a b] by simp

lemma grid2_less: "i < ni \<Longrightarrow> j < nj \<Longrightarrow> i * nj + j < ni * (nj::nat)"
proof -
  assume "i < ni" "j < nj"
  then have "i * nj + j < Suc i * nj"
    by simp
  also have "\<dots> \<le> ni * nj"
    using \<open>i < ni\<close> by (intro mult_le_mono1) simp
  finally show ?thesis .
qed

lemma grid3_less:
  "i < ni \<Longrightarrow> j < nj \<Longrightarrow> k < nk \<Longrightarrow> (i * nj + j) * nk + k < ni * nj * (nk::nat)"
  using grid2_less [of "i * nj + j" "ni * nj" k nk] grid2_less [of i ni j nj] by simp

lemma grid2_inj:
  assumes "i * nj + j = i' * nj + j'" "j < nj" "j' < (nj::nat)"
  shows "i = i' \<and> j = j'"
proof -
  have "(i * nj + j) div nj = i" "(i * nj + j) mod nj = j"
    using assms(2) by simp_all
  moreover have "(i' * nj + j') div nj = i'" "(i' * nj + j') mod nj = j'"
    using assms(3) by simp_all
  ultimately show ?thesis
    using assms(1) by metis
qed

lemma elem_offset_less:
  "i < ni \<Longrightarrow> j < nj \<Longrightarrow> k < nk \<Longrightarrow> elem_offset nj nk i j k < ni * nj * nk"
  unfolding elem_offset_def by (rule grid3_less)

lemma elem_offset_inj:
  assumes "elem_offset nj nk i j k = elem_offset nj nk i' j' k'"
    and "j < nj" "j' < nj" "k < nk" "k' < nk"
  shows "i = i' \<and> j = j' \<and> k = k'"
proof -
  from assms(1,4,5) have "i * nj + j = i' * nj + j' \<and> k = k'"
    unfolding elem_offset_def by (rule grid2_inj)
  then show ?thesis
    using grid2_inj [of i nj j i' j'] assms(2,3) by simp
qed


lemma set_f_ij_loop_correct:
  assumes "j \<le> num_j"
      and "unat i < ni"
      and "8 * ni + 8 * (ni * unat num_j) + 4 * (ni * unat num_j * unat num_k) < 2 ^ 64"
      and "block_base m = f"
      and "block_size m = 8 * ni + 8 * (ni * unat num_j) + 4 * (ni * unat num_j * unat num_k)"
      and "cells m (f + 8 * unat i) = Some (f + 8 * ni + 8 * (unat i * unat num_j))"
      and "f_k = f + (8 * ni + 8 * (ni * unat num_j))"
  shows "\<exists>m'. set_f_ij_loop f f_k num_j num_k i j m = Some m' \<and>
            block_base m' = block_base m \<and> block_size m' = block_size m \<and>
            (\<forall>j'. unat j \<le> j' \<and> j' < unat num_j \<longrightarrow>
               cells m' (f + 8 * ni + 8 * (unat i * unat num_j + j')) =
                 Some (f_k + 4 * ((unat i * unat num_j + j') * unat num_k))) \<and>
            (\<forall>a. (\<forall>j'. unat j \<le> j' \<and> j' < unat num_j \<longrightarrow>
                      a \<noteq> f + 8 * ni + 8 * (unat i * unat num_j + j')) \<longrightarrow>
                 cells m' a = cells m a)"
  using assms
proof (induction f f_k num_j num_k i j m rule: set_f_ij_loop.induct)
  case (1 f f_k num_j num_k i j m)
  define I where "I = unat i"
  define J where "J = unat j"
  define NJ where "NJ = unat num_j"
  define NK where "NK = unat num_k"
  note defs = I_def J_def NJ_def NK_def
  have Ilt: "I < ni" and fits: "8 * ni + 8 * (ni * NJ) + 4 * (ni * NJ * NK) < 2 ^ 64"
    and base: "block_base m = f"
    and size: "block_size m = 8 * ni + 8 * (ni * NJ) + 4 * (ni * NJ * NK)"
    and fi: "cells m (f + 8 * I) = Some (f + 8 * ni + 8 * (I * NJ))"
    and fk: "f_k = f + (8 * ni + 8 * (ni * NJ))"
    using "1.prems" unfolding defs by blast+
  show ?case
  proof (cases "j < num_j")
    case False
    with "1.prems"(1) have "j = num_j" by simp
    then show ?thesis
      by (subst set_f_ij_loop.simps) auto
  next
    case True
    then have Jlt: "J < NJ"
      unfolding defs by (simp add: word_less_nat_alt)
    have suc: "unat (j + 1) = Suc J"
      unfolding J_def using True by (rule size_t_succ)
    have le: "j + 1 \<le> num_j"
      using True by (simp add: inc_le)
    have cell: "I * NJ + J < ni * NJ"
      using Ilt Jlt by (rule grid2_less)
    have m1: "I * NJ \<le> ni * NJ"
      using Ilt by (intro mult_le_mono1) simp
    then have m2: "I * NJ * NK \<le> ni * NJ * NK"
      by (rule mult_le_mono1)
    have "J \<le> ni * NJ"
      using cell by simp
    then have m3: "J * NK \<le> ni * NJ * NK"
      by (rule mult_le_mono1)
    have e1: "unat (i * num_j) = I * NJ"
    proof -
      have "unat i * unat num_j < 2 ^ 64"
        using m1 fits unfolding defs [symmetric] pow2_64 by linarith
      then show ?thesis
        using size_t_mult_exact [of i num_j] by (simp only: defs)
    qed
    have e2: "unat (i * num_j * num_k) = I * NJ * NK"
    proof -
      have "unat (i * num_j) * unat num_k < 2 ^ 64"
        using m2 fits unfolding e1 NK_def [symmetric] pow2_64 by linarith
      then show ?thesis
        using size_t_mult_exact [of "i * num_j" num_k] by (simp only: e1 NK_def)
    qed
    have e3: "unat (j * num_k) = J * NK"
    proof -
      have "unat j * unat num_k < 2 ^ 64"
        using m3 fits unfolding defs [symmetric] pow2_64 by linarith
      then show ?thesis
        using size_t_mult_exact [of j num_k] by (simp only: defs)
    qed
    have ld: "load_ptr m (f + 8 * unat i) = Some (f + 8 * ni + 8 * (I * NJ))"
      using Ilt fi by (simp add: load_ptr_def in_block_def base size I_def [symmetric])
    let ?a = "f + 8 * ni + 8 * (I * NJ + J)"
    let ?v = "f_k + 4 * ((I * NJ + J) * NK)"
    let ?m1 = "m\<lparr>cells := (cells m)(?a \<mapsto> ?v)\<rparr>"
    have val: "f_k + 4 * unat (i * num_j * num_k) + 4 * unat (j * num_k) = ?v"
      unfolding e2 e3 by (simp add: algebra_simps)
    have addr: "f + 8 * ni + 8 * (I * NJ) + 8 * unat j = ?a"
      unfolding J_def by simp
    have inb: "in_block m ?a 8"
      using cell by (simp add: in_block_def base size)
    have st: "store_ptr m (f + 8 * ni + 8 * (I * NJ) + 8 * unat j)
                (f_k + 4 * unat (i * num_j * num_k) + 4 * unat (j * num_k)) = Some ?m1"
      unfolding val addr using inb by (simp add: store_ptr_def)
    have fi1: "cells ?m1 (f + 8 * unat i) = Some (f + 8 * ni + 8 * (unat i * unat num_j))"
      using fi Ilt by (simp add: defs)
    have "\<exists>m'. set_f_ij_loop f f_k num_j num_k i (j + 1) ?m1 = Some m' \<and>
            block_base m' = block_base ?m1 \<and> block_size m' = block_size ?m1 \<and>
            (\<forall>j'. unat (j + 1) \<le> j' \<and> j' < unat num_j \<longrightarrow>
               cells m' (f + 8 * ni + 8 * (unat i * unat num_j + j')) =
                 Some (f_k + 4 * ((unat i * unat num_j + j') * unat num_k))) \<and>
            (\<forall>a. (\<forall>j'. unat (j + 1) \<le> j' \<and> j' < unat num_j \<longrightarrow>
                      a \<noteq> f + 8 * ni + 8 * (unat i * unat num_j + j')) \<longrightarrow>
                 cells m' a = cells ?m1 a)"
    proof (rule "1.IH" [OF True ld st le "1.prems"(2) "1.prems"(3) _ _ fi1 "1.prems"(7)])
      show "block_base ?m1 = f"
        using base by simp
      show "block_size ?m1 = 8 * ni + 8 * (ni * unat num_j) + 4 * (ni * unat num_j * unat num_k)"
        using size by (simp add: defs)
    qed
    then obtain m' where run: "set_f_ij_loop f f_k num_j num_k i (j + 1) ?m1 = Some m'"
      and bs: "block_base m' = block_base m" "block_size m' = block_size m"
      and set: "\<And>j'. Suc J \<le> j' \<Longrightarrow> j' < NJ \<Longrightarrow>
                 cells m' (f + 8 * ni + 8 * (I * NJ + j')) = Some (f_k + 4 * ((I * NJ + j') * NK))"
      and frame: "\<And>a. (\<And>j'. Suc J \<le> j' \<Longrightarrow> j' < NJ \<Longrightarrow> a \<noteq> f + 8 * ni + 8 * (I * NJ + j')) \<Longrightarrow>
                 cells m' a = cells ?m1 a"
      unfolding suc defs [symmetric] by (auto simp: defs)
    have res: "set_f_ij_loop f f_k num_j num_k i j m = Some m'"
      using True ld st run by (subst set_f_ij_loop.simps) simp
    have set': "cells m' (f + 8 * ni + 8 * (I * NJ + j')) = Some (f_k + 4 * ((I * NJ + j') * NK))"
      if "J \<le> j'" "j' < NJ" for j'
    proof (cases "j' = J")
      case True
      have "cells m' ?a = cells ?m1 ?a"
        by (rule frame) simp
      then show ?thesis
        using True by simp
    next
      case False
      with that have "Suc J \<le> j'" by simp
      then show ?thesis
        using that(2) by (rule set)
    qed
    have frame': "cells m' a = cells m a"
      if "\<And>j'. J \<le> j' \<Longrightarrow> j' < NJ \<Longrightarrow> a \<noteq> f + 8 * ni + 8 * (I * NJ + j')" for a
    proof -
      have "cells m' a = cells ?m1 a"
        by (rule frame) (rule that, simp_all)
      moreover have "a \<noteq> ?a"
        using that [of J] Jlt by simp
      ultimately show ?thesis
        by simp
    qed
    show ?thesis
      using res bs set' frame' unfolding defs by blast
  qed
qed


lemma set_f_i_loop_correct:
  assumes "i \<le> num_i"
      and "8 * unat num_i + 8 * (unat num_i * unat num_j) +
             4 * (unat num_i * unat num_j * unat num_k) < 2 ^ 64"
      and "block_base m = f"
      and "block_size m = 8 * unat num_i + 8 * (unat num_i * unat num_j) +
             4 * (unat num_i * unat num_j * unat num_k)"
      and "f_j = f + 8 * unat num_i"
      and "f_k = f + (8 * unat num_i + 8 * (unat num_i * unat num_j))"
  shows "\<exists>m'. set_f_i_loop f f_j f_k num_i num_j num_k i m = Some m' \<and>
            block_base m' = block_base m \<and> block_size m' = block_size m \<and>
            (\<forall>i'. unat i \<le> i' \<and> i' < unat num_i \<longrightarrow>
               cells m' (f + 8 * i') = Some (f_j + 8 * (i' * unat num_j)) \<and>
               (\<forall>j'<unat num_j. cells m' (f_j + 8 * (i' * unat num_j + j')) =
                  Some (f_k + 4 * ((i' * unat num_j + j') * unat num_k)))) \<and>
            (\<forall>a. (\<forall>i'. unat i \<le> i' \<and> i' < unat num_i \<longrightarrow>
                      a \<noteq> f + 8 * i' \<and> (\<forall>j'<unat num_j. a \<noteq> f_j + 8 * (i' * unat num_j + j'))) \<longrightarrow>
                 cells m' a = cells m a)"
  using assms
proof (induction f f_j f_k num_i num_j num_k i m rule: set_f_i_loop.induct)
  case (1 f f_j f_k num_i num_j num_k i m)
  define I where "I = unat i"
  define NI where "NI = unat num_i"
  define NJ where "NJ = unat num_j"
  define NK where "NK = unat num_k"
  note defs = I_def NI_def NJ_def NK_def
  have fits: "8 * NI + 8 * (NI * NJ) + 4 * (NI * NJ * NK) < 2 ^ 64"
    and base: "block_base m = f"
    and size: "block_size m = 8 * NI + 8 * (NI * NJ) + 4 * (NI * NJ * NK)"
    and fj: "f_j = f + 8 * NI"
    and fk: "f_k = f + (8 * NI + 8 * (NI * NJ))"
    using "1.prems" unfolding defs by blast+
  show ?case
  proof (cases "i < num_i")
    case False
    with "1.prems"(1) have "i = num_i" by simp
    then show ?thesis
      by (subst set_f_i_loop.simps) auto
  next
    case True
    then have Ilt: "I < NI"
      unfolding defs by (simp add: word_less_nat_alt)
    have suc: "unat (i + 1) = Suc I"
      unfolding I_def using True by (rule size_t_succ)
    have le: "i + 1 \<le> num_i"
      using True by (simp add: inc_le)
    have m1: "I * NJ \<le> NI * NJ"
      using Ilt by (intro mult_le_mono1) simp
    have e1: "unat (i * num_j) = I * NJ"
    proof -
      have "unat i * unat num_j < 2 ^ 64"
        using m1 fits unfolding defs [symmetric] pow2_64 by linarith
      then show ?thesis
        using size_t_mult_exact [of i num_j] by (simp only: defs)
    qed
    let ?v = "f_j + 8 * (I * NJ)"
    let ?m1 = "m\<lparr>cells := (cells m)(f + 8 * I \<mapsto> ?v)\<rparr>"
    have inb: "in_block m (f + 8 * I) 8"
      using Ilt by (simp add: in_block_def base size)
    have st: "store_ptr m (f + 8 * unat i) (f_j + 8 * unat (i * num_j)) = Some ?m1"
      unfolding e1 I_def [symmetric] using inb by (simp add: store_ptr_def)
    have "\<exists>m2. set_f_ij_loop f f_k num_j num_k i 0 ?m1 = Some m2 \<and>
            block_base m2 = block_base ?m1 \<and> block_size m2 = block_size ?m1 \<and>
            (\<forall>j'. unat (0::size_t) \<le> j' \<and> j' < unat num_j \<longrightarrow>
               cells m2 (f + 8 * NI + 8 * (unat i * unat num_j + j')) =
                 Some (f_k + 4 * ((unat i * unat num_j + j') * unat num_k))) \<and>
            (\<forall>a. (\<forall>j'. unat (0::size_t) \<le> j' \<and> j' < unat num_j \<longrightarrow>
                      a \<noteq> f + 8 * NI + 8 * (unat i * unat num_j + j')) \<longrightarrow>
                 cells m2 a = cells ?m1 a)"
    proof (rule set_f_ij_loop_correct [OF word_zero_le])
      show "unat i < NI"
        using Ilt by (simp only: I_def)
      show "8 * NI + 8 * (NI * unat num_j) + 4 * (NI * unat num_j * unat num_k) < 2 ^ 64"
        using fits by (simp only: defs)
      show "block_base ?m1 = f"
        using base by simp
      show "block_size ?m1 = 8 * NI + 8 * (NI * unat num_j) + 4 * (NI * unat num_j * unat num_k)"
        using size by (simp add: defs)
      show "cells ?m1 (f + 8 * unat i) = Some (f + 8 * NI + 8 * (unat i * unat num_j))"
        by (simp add: defs fj)
      show "f_k = f + (8 * NI + 8 * (NI * unat num_j))"
        using fk by (simp only: defs)
    qed
    then obtain m2 where run2: "set_f_ij_loop f f_k num_j num_k i 0 ?m1 = Some m2"
      and bs2: "block_base m2 = f"
        "block_size m2 = 8 * NI + 8 * (NI * NJ) + 4 * (NI * NJ * NK)"
      and set2: "\<And>j'. j' < NJ \<Longrightarrow>
                 cells m2 (f_j + 8 * (I * NJ + j')) = Some (f_k + 4 * ((I * NJ + j') * NK))"
      and frame2: "\<And>a. (\<And>j'. j' < NJ \<Longrightarrow> a \<noteq> f_j + 8 * (I * NJ + j')) \<Longrightarrow>
                 cells m2 a = cells ?m1 a"
      unfolding defs [symmetric] fj [symmetric] using base size by auto
    have "\<exists>m'. set_f_i_loop f f_j f_k num_i num_j num_k (i + 1) m2 = Some m' \<and>
            block_base m' = block_base m2 \<and> block_size m' = block_size m2 \<and>
            (\<forall>i'. unat (i + 1) \<le> i' \<and> i' < unat num_i \<longrightarrow>
               cells m' (f + 8 * i') = Some (f_j + 8 * (i' * unat num_j)) \<and>
               (\<forall>j'<unat num_j. cells m' (f_j + 8 * (i' * unat num_j + j')) =
                  Some (f_k + 4 * ((i' * unat num_j + j') * unat num_k)))) \<and>
            (\<forall>a. (\<forall>i'. unat (i + 1) \<le> i' \<and> i' < unat num_i \<longrightarrow>
                      a \<noteq> f + 8 * i' \<and> (\<forall>j'<unat num_j. a \<noteq> f_j + 8 * (i' * unat num_j + j'))) \<longrightarrow>
                 cells m' a = cells m2 a)"
    proof (rule "1.IH" [OF True st run2 le "1.prems"(2) _ _ "1.prems"(5) "1.prems"(6)])
      show "block_base m2 = f"
        by (rule bs2(1))
      show "block_size m2 = 8 * unat num_i + 8 * (unat num_i * unat num_j) +
             4 * (unat num_i * unat num_j * unat num_k)"
        using bs2(2) by (simp only: defs)
    qed
    then obtain m' where run: "set_f_i_loop f f_j f_k num_i num_j num_k (i + 1) m2 = Some m'"
      and bs: "block_base m' = block_base m" "block_size m' = block_size m"
      and set: "\<And>i'. Suc I \<le> i' \<Longrightarrow> i' < NI \<Longrightarrow>
                 cells m' (f + 8 * i') = Some (f_j + 8 * (i' * NJ)) \<and>
                 (\<forall>j'<NJ. cells m' (f_j + 8 * (i' * NJ + j')) = Some (f_k + 4 * ((i' * NJ + j') * NK)))"
      and frame: "\<And>a. (\<And>i'. Suc I \<le> i' \<Longrightarrow> i' < NI \<Longrightarrow>
                      a \<noteq> f + 8 * i' \<and> (\<forall>j'<NJ. a \<noteq> f_j + 8 * (i' * NJ + j'))) \<Longrightarrow>
                 cells m' a = cells m2 a"
      unfolding suc defs [symmetric] using bs2 base size by auto
    have res: "set_f_i_loop f f_j f_k num_i num_j num_k i m = Some m'"
      using True st run2 run by (subst set_f_i_loop.simps) simp
    have keep_fi: "cells m' (f + 8 * I) = Some ?v"
    proof -
      have "cells m' (f + 8 * I) = cells m2 (f + 8 * I)"
        using Ilt by (intro frame) (simp add: fj)
      also have "\<dots> = cells ?m1 (f + 8 * I)"
        using Ilt by (intro frame2) (simp add: fj)
      finally show ?thesis
        by simp
    qed
    have keep_row: "cells m' (f_j + 8 * (I * NJ + j')) = Some (f_k + 4 * ((I * NJ + j') * NK))"
      if "j' < NJ" for j'
    proof -
      have "cells m' (f_j + 8 * (I * NJ + j')) = cells m2 (f_j + 8 * (I * NJ + j'))"
      proof (rule frame, rule conjI)
        fix i' assume "Suc I \<le> i'" "i' < NI"
        then show "f_j + 8 * (I * NJ + j') \<noteq> f + 8 * i'"
          by (simp add: fj)
        show "\<forall>j''<NJ. f_j + 8 * (I * NJ + j') \<noteq> f_j + 8 * (i' * NJ + j'')"
        proof (intro allI impI notI)
          fix j'' assume j'': "j'' < NJ"
            and "f_j + 8 * (I * NJ + j') = f_j + 8 * (i' * NJ + j'')"
          then have "I * NJ + j' = i' * NJ + j''"
            by simp
          then have "I = i'"
            using grid2_inj [OF _ that j''] by blast
          with \<open>Suc I \<le> i'\<close> show False
            by simp
        qed
      qed
      then show ?thesis
        using set2 [OF that] by simp
    qed
    have set': "cells m' (f + 8 * i') = Some (f_j + 8 * (i' * NJ)) \<and>
                 (\<forall>j'<NJ. cells m' (f_j + 8 * (i' * NJ + j')) = Some (f_k + 4 * ((i' * NJ + j') * NK)))"
      if "I \<le> i'" "i' < NI" for i'
    proof (cases "i' = I")
      case True
      then show ?thesis
        using keep_fi keep_row by simp
    next
      case False
      with that have "Suc I \<le> i'" by simp
      then show ?thesis
        using that(2) by (rule set)
    qed
    have frame': "cells m' a = cells m a"
      if "\<And>i'. I \<le> i' \<Longrightarrow> i' < NI \<Longrightarrow>
            a \<noteq> f + 8 * i' \<and> (\<forall>j'<NJ. a \<noteq> f_j + 8 * (i' * NJ + j'))" for a
    proof -
      have "cells m' a = cells m2 a"
        by (rule frame) (rule that, simp_all)
      also have "\<dots> = cells ?m1 a"
        using that [of I] Ilt by (intro frame2) simp
      also have "\<dots> = cells m a"
        using that [of I] Ilt by simp
      finally show ?thesis .
    qed
    show ?thesis
      using res bs set' frame' unfolding defs by blast
  qed
qed

text \<open>
  Claim C10, for dimensions whose sizes do not wrap around: when the two pointer tables and
  the float data together take fewer than \<open>2\<^sup>6\<^sup>4\<close> bytes, \<open>create_3d_float_array\<close> returns
  null exactly when \<open>malloc\<close> does, and otherwise returns the block's address with every
  \<open>f[i][j]\<close> (\<open>i < num_i\<close>, \<open>j < num_j\<close>) pointing at element offset
  \<open>(i \<times> num_j + j) \<times> num_k\<close> of the float data that follows the pointer tables; each
  \<open>f[i][j][k]\<close> with \<open>k < num_k\<close> is a float inside the block, at an element offset below
  \<open>num_i \<times> num_j \<times> num_k\<close> that no other index triple shares.
\<close>

theorem create_3d_float_array_layout:
  assumes fits: "ptrs_bytes (unat num_i) (unat num_j) +
                   data_bytes (unat num_i) (unat num_j) (unat num_k) < 2 ^ 64"
  defines "request \<equiv> of_nat (ptrs_bytes (unat num_i) (unat num_j) +
                   data_bytes (unat num_i) (unat num_j) (unat num_k)) :: size_t"
  shows "(create_3d_float_array malloc num_i num_j num_k = Null \<longleftrightarrow> malloc request = None) \<and>
         (\<forall>block. malloc request = Some block \<longrightarrow>
            (\<exists>m. create_3d_float_array malloc num_i num_j num_k = Array3 block m \<and>
               block_base m = block \<and>
               block_size m = ptrs_bytes (unat num_i) (unat num_j) +
                   data_bytes (unat num_i) (unat num_j) (unat num_k) \<and>
               (\<forall>i<unat num_i. \<forall>j<unat num_j.
                  f_ij_ptr m block i j =
                    Some (block + ptrs_bytes (unat num_i) (unat num_j) +
                          4 * elem_offset (unat num_j) (unat num_k) i j 0) \<and>
                  (\<forall>k<unat num_k.
                     f_ijk_addr m block i j k =
                       Some (block + ptrs_bytes (unat num_i) (unat num_j) +
                             4 * elem_offset (unat num_j) (unat num_k) i j k) \<and>
                     in_block m (block + ptrs_bytes (unat num_i) (unat num_j) +
                             4 * elem_offset (unat num_j) (unat num_k) i j k) 4 \<and>
                     elem_offset (unat num_j) (unat num_k) i j k
                       < unat num_i * unat num_j * unat num_k \<and>
                     (\<forall>i' j' k'. j' < unat num_j \<and> k' < unat num_k \<and>
                        elem_offset (unat num_j) (unat num_k) i' j' k' =
                        elem_offset (unat num_j) (unat num_k) i j k \<longrightarrow>
                        i' = i \<and> j' = j \<and> k' = k)))))"
proof -
  define NI where "NI = unat num_i"
  define NJ where "NJ = unat num_j"
  define NK where "NK = unat num_k"
  note defs = NI_def NJ_def NK_def
  define P where "P = 8 * NI + 8 * (NI * NJ)"
  define D where "D = 4 * (NI * NJ * NK)"
  have fits': "8 * NI + 8 * (NI * NJ) + 4 * (NI * NJ * NK) < 18446744073709551616"
    using fits unfolding ptrs_bytes_def data_bytes_def defs [symmetric] pow2_64 .
  have e_i8: "unat (num_i * 8) = 8 * NI"
  proof -
    have "unat num_i * unat (8::size_t) < 2 ^ 64"
      using fits' unfolding defs pow2_64 by simp
    then show ?thesis
      using size_t_mult_exact [of num_i 8] by (simp add: defs)
  qed
  have e_ij: "unat (num_i * num_j) = NI * NJ"
  proof -
    have "unat num_i * unat num_j < 2 ^ 64"
      using fits' unfolding defs pow2_64 by linarith
    then show ?thesis
      using size_t_mult_exact [of num_i num_j] by (simp only: defs)
  qed
  have e_ij8: "unat (num_i * num_j * 8) = 8 * (NI * NJ)"
  proof -
    have "unat (num_i * num_j) * unat (8::size_t) < 2 ^ 64"
      using fits' unfolding e_ij pow2_64 by simp
    then show ?thesis
      using size_t_mult_exact [of "num_i * num_j" 8] by (simp add: e_ij)
  qed
  have e_p: "unat (num_i * 8 + num_i * num_j * 8) = P"
  proof -
    have "unat (num_i * 8) + unat (num_i * num_j * 8) < 2 ^ 64"
      using fits' unfolding e_i8 e_ij8 pow2_64 by linarith
    then show ?thesis
      using size_t_add_exact [of "num_i * 8" "num_i * num_j * 8"] by (simp only: e_i8 e_ij8 P_def)
  qed
  have e_ijk: "unat (num_i * num_j * num_k) = NI * NJ * NK"
  proof -
    have "unat (num_i * num_j) * unat num_k < 2 ^ 64"
      using fits' unfolding e_ij NK_def [symmetric] pow2_64 by linarith
    then show ?thesis
      using size_t_mult_exact [of "num_i * num_j" num_k] by (simp only: e_ij NK_def)
  qed
  have e_d: "unat (num_i * num_j * num_k * 4) = D"
  proof -
    have "unat (num_i * num_j * num_k) * unat (4::size_t) < 2 ^ 64"
      using fits' unfolding e_ijk pow2_64 by simp
    then show ?thesis
      using size_t_mult_exact [of "num_i * num_j * num_k" 4] by (simp add: e_ijk D_def)
  qed
  have e_t: "unat (num_i * 8 + num_i * num_j * 8 + num_i * num_j * num_k * 4) = P + D"
  proof -
    have "unat (num_i * 8 + num_i * num_j * 8) + unat (num_i * num_j * num_k * 4) < 2 ^ 64"
      using fits' unfolding e_p e_d P_def D_def pow2_64 by linarith
    then show ?thesis
      using size_t_add_exact [of "num_i * 8 + num_i * num_j * 8" "num_i * num_j * num_k * 4"]
      by (simp only: e_p e_d)
  qed
  have req: "num_i * 8 + num_i * num_j * 8 + num_i * num_j * num_k * 4 = request"
  proof -
    have "request = of_nat (P + D)"
      unfolding request_def ptrs_bytes_def data_bytes_def P_def D_def defs ..
    also have "\<dots> = of_nat (unat (num_i * 8 + num_i * num_j * 8 + num_i * num_j * num_k * 4))"
      by (simp only: e_t)
    finally show ?thesis
      by simp
  qed
  have ur: "unat request = P + D"
    using e_t by (simp only: req)
  have null: "create_3d_float_array malloc num_i num_j num_k = Null" if "malloc request = None"
    using that by (simp add: create_3d_float_array_def Let_def req)
  have arr: "\<exists>m. create_3d_float_array malloc num_i num_j num_k = Array3 block m \<and>
               block_base m = block \<and> block_size m = P + D \<and>
               (\<forall>i<NI. \<forall>j<NJ.
                  f_ij_ptr m block i j = Some (block + P + 4 * elem_offset NJ NK i j 0) \<and>
                  (\<forall>k<NK.
                     f_ijk_addr m block i j k = Some (block + P + 4 * elem_offset NJ NK i j k) \<and>
                     in_block m (block + P + 4 * elem_offset NJ NK i j k) 4))"
    if ok: "malloc request = Some block" for block
  proof -
    let ?m0 = "\<lparr>block_base = block, block_size = P + D, cells = Map.empty\<rparr>"
    have "\<exists>m'. set_f_i_loop block (block + 8 * NI) (block + P) num_i num_j num_k 0 ?m0 = Some m' \<and>
            block_base m' = block_base ?m0 \<and> block_size m' = block_size ?m0 \<and>
            (\<forall>i'. unat (0::size_t) \<le> i' \<and> i' < unat num_i \<longrightarrow>
               cells m' (block + 8 * i') = Some (block + 8 * NI + 8 * (i' * unat num_j)) \<and>
               (\<forall>j'<unat num_j. cells m' (block + 8 * NI + 8 * (i' * unat num_j + j')) =
                  Some (block + P + 4 * ((i' * unat num_j + j') * unat num_k)))) \<and>
            (\<forall>a. (\<forall>i'. unat (0::size_t) \<le> i' \<and> i' < unat num_i \<longrightarrow>
                      a \<noteq> block + 8 * i' \<and>
                      (\<forall>j'<unat num_j. a \<noteq> block + 8 * NI + 8 * (i' * unat num_j + j'))) \<longrightarrow>
                 cells m' a = cells ?m0 a)"
    proof (rule set_f_i_loop_correct [OF word_zero_le])
      show "8 * unat num_i + 8 * (unat num_i * unat num_j) +
             4 * (unat num_i * unat num_j * unat num_k) < 2 ^ 64"
        using fits' unfolding defs pow2_64 .
      show "block_base ?m0 = block"
        by simp
      show "block_size ?m0 = 8 * unat num_i + 8 * (unat num_i * unat num_j) +
             4 * (unat num_i * unat num_j * unat num_k)"
        by (simp add: P_def D_def defs)
      show "block + 8 * NI = block + 8 * unat num_i"
        by (simp only: defs)
      show "block + P = block + (8 * unat num_i + 8 * (unat num_i * unat num_j))"
        by (simp only: P_def defs)
    qed
    then obtain m where run: "set_f_i_loop block (block + 8 * NI) (block + P) num_i num_j num_k 0 ?m0 = Some m"
      and bs: "block_base m = block" "block_size m = P + D"
      and fi: "\<And>i. i < NI \<Longrightarrow> cells m (block + 8 * i) = Some (block + 8 * NI + 8 * (i * NJ))"
      and fij: "\<And>i j. i < NI \<Longrightarrow> j < NJ \<Longrightarrow>
                  cells m (block + 8 * NI + 8 * (i * NJ + j)) = Some (block + P + 4 * ((i * NJ + j) * NK))"
      unfolding defs [symmetric] by auto
    have res: "create_3d_float_array malloc num_i num_j num_k = Array3 block m"
      using ok run by (simp add: create_3d_float_array_def Let_def req e_i8 e_p ur)
    have ptr: "f_ij_ptr m block i j = Some (block + P + 4 * elem_offset NJ NK i j 0)"
      if "i < NI" "j < NJ" for i j
    proof -
      have "i * NJ + j < NI * NJ"
        using that by (rule grid2_less)
      then have in2: "in_block m (block + 8 * NI + 8 * (i * NJ + j)) 8"
        by (simp add: in_block_def bs P_def)
      have in1: "in_block m (block + 8 * i) 8"
        using that(1) by (simp add: in_block_def bs P_def)
      have l1: "load_ptr m (block + 8 * i) = Some (block + 8 * NI + 8 * (i * NJ))"
        using in1 fi [OF that(1)] by (simp add: load_ptr_def)
      have a2: "block + 8 * NI + 8 * (i * NJ) + 8 * j = block + 8 * NI + 8 * (i * NJ + j)"
        by simp
      have l2: "load_ptr m (block + 8 * NI + 8 * (i * NJ) + 8 * j) = Some (block + P + 4 * ((i * NJ + j) * NK))"
        unfolding a2 using in2 fij [OF that] by (simp add: load_ptr_def)
      show ?thesis
        by (simp add: f_ij_ptr_def l1 l2 elem_offset_def)
    qed
    have elem: "f_ijk_addr m block i j k = Some (block + P + 4 * elem_offset NJ NK i j k) \<and>
                in_block m (block + P + 4 * elem_offset NJ NK i j k) 4"
      if "i < NI" "j < NJ" "k < NK" for i j k
    proof -
      have "elem_offset NJ NK i j k < NI * NJ * NK"
        using that by (rule elem_offset_less)
      then have "in_block m (block + P + 4 * elem_offset NJ NK i j k) 4"
        by (simp add: in_block_def bs D_def)
      moreover have "f_ijk_addr m block i j k = Some (block + P + 4 * elem_offset NJ NK i j k)"
        using ptr [OF that(1,2)] by (simp add: f_ijk_addr_def elem_offset_def)
      ultimately show ?thesis
        by simp
    qed
    show ?thesis
      using res bs ptr elem by blast
  qed
  have notnull: "create_3d_float_array malloc num_i num_j num_k \<noteq> Null" if "malloc request \<noteq> None"
  proof -
    from that obtain block where "malloc request = Some block"
      by auto
    from arr [OF this] show ?thesis
      by auto
  qed
  have inj: "i' = i \<and> j' = j \<and> k' = k"
    if "j < NJ" "k < NK" "j' < NJ \<and> k' < NK \<and> elem_offset NJ NK i' j' k' = elem_offset NJ NK i j k"
    for i j k i' j' k'
    using elem_offset_inj [of NJ NK i' j' k' i j k] that by blast
  have PD: "ptrs_bytes NI NJ = P" "data_bytes NI NJ NK = D"
    by (simp_all add: ptrs_bytes_def data_bytes_def P_def D_def)
  show ?thesis
    unfolding defs [symmetric] PD
    using null notnull arr elem_offset_less [of _ NI _ NJ _ NK] inj
    by (metis (no_types, lifting))
qed

theorem create_3d_float_array_layout_witness:
  "ptrs_bytes (unat (2::size_t)) (unat (3::size_t)) +
     data_bytes (unat (2::size_t)) (unat (3::size_t)) (unat (4::size_t)) < 2 ^ 64 \<and>
   (\<exists>m. create_3d_float_array (malloc_at 4096) 2 3 4 = Array3 4096 m \<and>
        block_size m = 160 \<and>
        f_ij_ptr m 4096 1 2 = Some (4096 + 64 + 4 * 20) \<and>
        f_ijk_addr m 4096 1 2 3 = Some (4096 + 64 + 4 * 23) \<and>
        in_block m (4096 + 64 + 4 * 23) 4)"
proof -
  have h: "ptrs_bytes (unat (2::size_t)) (unat (3::size_t)) +
     data_bytes (unat (2::size_t)) (unat (3::size_t)) (unat (4::size_t)) < 2 ^ 64"
    by (simp add: ptrs_bytes_def data_bytes_def)
  have ok: "malloc_at 4096 (of_nat (ptrs_bytes (unat (2::size_t)) (unat (3::size_t)) +
     data_bytes (unat (2::size_t)) (unat (3::size_t)) (unat (4::size_t)))) = Some 4096"
    by (simp add: malloc_at_def)
  from create_3d_float_array_layout [OF h, of "malloc_at 4096"] ok
  obtain m where m: "create_3d_float_array (malloc_at 4096) 2 3 4 = Array3 4096 m"
      "block_size m = ptrs_bytes (unat (2::size_t)) (unat (3::size_t)) +
         data_bytes (unat (2::size_t)) (unat (3::size_t)) (unat (4::size_t))"
      "\<forall>i<unat (2::size_t). \<forall>j<unat (3::size_t).
                  f_ij_ptr m 4096 i j =
                    Some (4096 + ptrs_bytes (unat (2::size_t)) (unat (3::size_t)) +
                          4 * elem_offset (unat (3::size_t)) (unat (4::size_t)) i j 0) \<and>
                  (\<forall>k<unat (4::size_t).
                     f_ijk_addr m 4096 i j k =
                       Some (4096 + ptrs_bytes (unat (2::size_t)) (unat (3::size_t)) +
                             4 * elem_offset (unat (3::size_t)) (unat (4::size_t)) i j k) \<and>
                     in_block m (4096 + ptrs_bytes (unat (2::size_t)) (unat (3::size_t)) +
                             4 * elem_offset (unat (3::size_t)) (unat (4::size_t)) i j k) 4)"
    by blast
  from m(3) have "f_ij_ptr m 4096 1 2 =
                    Some (4096 + ptrs_bytes (unat (2::size_t)) (unat (3::size_t)) +
                          4 * elem_offset (unat (3::size_t)) (unat (4::size_t)) 1 2 0) \<and>
                     f_ijk_addr m 4096 1 2 3 =
                       Some (4096 + ptrs_bytes (unat (2::size_t)) (unat (3::size_t)) +
                             4 * elem_offset (unat (3::size_t)) (unat (4::size_t)) 1 2 3) \<and>
                     in_block m (4096 + ptrs_bytes (unat (2::size_t)) (unat (3::size_t)) +
                             4 * elem_offset (unat (3::size_t)) (unat (4::size_t)) 1 2 3) 4"
    by simp
  then have "f_ij_ptr m 4096 1 2 = Some (4096 + 64 + 4 * 20) \<and>
        f_ijk_addr m 4096 1 2 3 = Some (4096 + 64 + 4 * 23) \<and>
        in_block m (4096 + 64 + 4 * 23) 4"
    by (simp add: ptrs_bytes_def elem_offset_def)
  moreover have "block_size m = 160"
    using m(2) by (simp add: ptrs_bytes_def data_bytes_def)
  ultimately show ?thesis
    using h m(1) by blast
qed

text \<open>
  Without the bound the claim fails. For \<open>num_i = num_j = 1\<close> and \<open>num_k = 2\<^sup>6\<^sup>2\<close> the
  product \<open>num_i * num_j * num_k * sizeof(float)\<close> wraps around to 0, so 16 bytes are
  requested; the allocation succeeds and a non-null structure is returned, but already
  \<open>f[0][0][1]\<close> lies beyond the end of the block.
\<close>

theorem create_3d_float_array_overflow_counterexample:
  "create_3d_float_array (malloc_at 4096) 1 1 (2 ^ 62) =
     Array3 4096 \<lparr>block_base = 4096, block_size = 16, cells = [4096 \<mapsto> 4104, 4104 \<mapsto> 4112]\<rparr> \<and>
   f_ijk_addr \<lparr>block_base = 4096, block_size = 16, cells = [4096 \<mapsto> 4104, 4104 \<mapsto> 4112]\<rparr>
     4096 0 0 1 = Some 4116 \<and>
   \<not> in_block \<lparr>block_base = 4096, block_size = 16, cells = [4096 \<mapsto> 4104, 4104 \<mapsto> 4112]\<rparr>
     4116 4"
  by (simp add: create_3d_float_array_def malloc_at_def set_f_i_loop.simps set_f_ij_loop.simps
      store_ptr_def load_ptr_def in_block_def f_ijk_addr_def f_ij_ptr_def)

text \<open>When the allocator answers with a null pointer, so does the function.\<close>

lemma create_3d_float_array_null:
  "create_3d_float_array malloc_fails 2 3 4 = Null"
  by (simp add: create_3d_float_array_def malloc_fails_def)

section \<open>Properties of the request functions\<close>

lemma snprintf_s_length:
  "0 < n \<Longrightarrow> n \<le> length buf \<Longrightarrow> length (snprintf_s buf n str) = length buf"
  by (auto simp: snprintf_s_def Let_def min_def)

text \<open>
  An abbreviation shorter than \<open>SIGMET_DATA_TYPE_LEN\<close> set on a fresh request fills the field
  as the abbreviation followed by NULs; the empty abbreviation gives sixteen NULs.
\<close>

lemma SigmetRaw_Rqst_Set_DataType_short:
  assumes "length str < SIGMET_DATA_TYPE_LEN"
  shows "abbrv (SigmetRaw_Rqst_Set_DataType SigmetRaw_Rqst_Init str) = zero_padded str"
proof -
  have "min (length str) 15 = length str"
    using assms by (simp add: SIGMET_DATA_TYPE_LEN_def)
  moreover have "NUL # replicate (15 - length str) NUL = replicate (16 - length str) NUL"
    using assms by (simp add: SIGMET_DATA_TYPE_LEN_def Suc_diff_le flip: replicate_Suc)
  ultimately show ?thesis
    by (simp add: SigmetRaw_Rqst_Set_DataType_def SigmetRaw_Rqst_Init_def snprintf_s_def
        zero_padded_def SIGMET_DATA_TYPE_LEN_def Let_def)
qed

text \<open>The field goes on the wire as it stands in the request.\<close>

lemma SigmetRaw_Rqst_Send_wire_data_type:
  assumes "sendmsg_arg (SigmetRaw_Rqst_Send os rqst) = Some m"
      and "length (abbrv rqst) = SIGMET_DATA_TYPE_LEN"
  shows "wire_data_type m = abbrv rqst"
  using assms
  by (auto simp: SigmetRaw_Rqst_Send_def Let_def wire_data_type_def SigmetRawRqstDataType_def
      split: if_splits)

text \<open>
  Claim C2 says that an abbreviation of up to 16 characters reaches the data-type field whole,
  zero-padded to 16 bytes. \<open>sigmet.h\<close> sizes \<open>SIGMET_DATA_TYPE_LEN\<close> after
  \<open>DB_TEMPERATURE16\<close>, ``NOT including nul terminator'', but \<open>SigmetRaw_Rqst_Set_DataType\<close>
  gives \<open>snprintf\<close> that same size, which reserves the last byte for the NUL: the sixteenth
  character of the abbreviation is dropped.
\<close>

theorem SigmetRaw_Rqst_Set_DataType_truncates:
  "length ''DB_TEMPERATURE16'' = SIGMET_DATA_TYPE_LEN \<and>
   abbrv (SigmetRaw_Rqst_Set_DataType SigmetRaw_Rqst_Init ''DB_TEMPERATURE16'') =
     ''DB_TEMPERATURE1'' @ [NUL] \<and>
   abbrv (SigmetRaw_Rqst_Set_DataType SigmetRaw_Rqst_Init ''DB_TEMPERATURE16'') \<noteq>
     zero_padded ''DB_TEMPERATURE16''"
  by (simp add: SigmetRaw_Rqst_Set_DataType_def SigmetRaw_Rqst_Init_def snprintf_s_def
      zero_padded_def SIGMET_DATA_TYPE_LEN_def NUL_def)

text \<open>
  Claim C4. \<open>SigmetRaw_Rqst_Send\<close> hands a message to \<open>sendmsg\<close> exactly when
  \<open>CMSG_FIRSTHDR\<close> yields a control header and, if the client left a descriptor out (a
  negative value), \<open>/dev/null\<close> could be opened. Every message it hands over has exactly
  the three data items subcommand, 16-byte abbreviation and sweep index, in this order, and
  one \<open>SCM_RIGHTS\<close> control message with exactly two descriptors, none negative: slot
  \<open>SigmetRawErrFD = 0\<close> holds the client's error descriptor and slot
  \<open>SigmetRawHdrDataFD = 1\<close> its header/data descriptor, each replaced by the descriptor
  just opened on \<open>/dev/null\<close> when the client supplied none. The function returns 1
  exactly when the message was handed over and \<open>sendmsg\<close> did not fail.
\<close>

theorem SigmetRaw_Rqst_Send_shape:
  "((\<exists>m. sendmsg_arg (SigmetRaw_Rqst_Send os rqst) = Some m) \<longleftrightarrow>
      \<not> cmsg_firsthdr_null os \<and>
      (err_fd rqst < 0 \<or> hd_fd rqst < 0 \<longrightarrow> (\<exists>d. open_rdonly os ''/dev/null'' = Some d))) \<and>
   (\<forall>m. sendmsg_arg (SigmetRaw_Rqst_Send os rqst) = Some m \<longrightarrow>
      msg_iov m =
        [\<lparr>iov_base = Member_sub_cmd_n (sub_cmd_n rqst), iov_len = sizeof_int\<rparr>,
         \<lparr>iov_base = Member_abbrv (abbrv rqst), iov_len = SIGMET_DATA_TYPE_LEN\<rparr>,
         \<lparr>iov_base = Member_s (s rqst), iov_len = sizeof_int\<rparr>] \<and>
      msg_iovlen m = 3 \<and> cmsg_level m = SOL_SOCKET \<and> cmsg_type m = SCM_RIGHTS \<and>
      length (cmsg_data m) = 2 \<and>
      (\<forall>fd \<in> set (cmsg_data m). 0 \<le> fd) \<and>
      (0 \<le> err_fd rqst \<longrightarrow> cmsg_data m ! SigmetRawErrFD = err_fd rqst) \<and>
      (0 \<le> hd_fd rqst \<longrightarrow> cmsg_data m ! SigmetRawHdrDataFD = hd_fd rqst) \<and>
      (err_fd rqst < 0 \<longrightarrow>
         (\<exists>d. open_rdonly os ''/dev/null'' = Some d \<and> cmsg_data m ! SigmetRawErrFD = int d)) \<and>
      (hd_fd rqst < 0 \<longrightarrow>
         (\<exists>d. open_rdonly os ''/dev/null'' = Some d \<and> cmsg_data m ! SigmetRawHdrDataFD = int d))) \<and>
   (send_ret (SigmetRaw_Rqst_Send os rqst) = 1 \<longleftrightarrow>
      (\<exists>m. sendmsg_arg (SigmetRaw_Rqst_Send os rqst) = Some m) \<and> sendmsg_ret os \<noteq> -1)"
proof (intro conjI)
  show "(\<exists>m. sendmsg_arg (SigmetRaw_Rqst_Send os rqst) = Some m) \<longleftrightarrow>
      \<not> cmsg_firsthdr_null os \<and>
      (err_fd rqst < 0 \<or> hd_fd rqst < 0 \<longrightarrow> (\<exists>d. open_rdonly os ''/dev/null'' = Some d))"
    by (auto simp: SigmetRaw_Rqst_Send_def Let_def split: if_splits option.splits)
  show "\<forall>m. sendmsg_arg (SigmetRaw_Rqst_Send os rqst) = Some m \<longrightarrow>
      msg_iov m =
        [\<lparr>iov_base = Member_sub_cmd_n (sub_cmd_n rqst), iov_len = sizeof_int\<rparr>,
         \<lparr>iov_base = Member_abbrv (abbrv rqst), iov_len = SIGMET_DATA_TYPE_LEN\<rparr>,
         \<lparr>iov_base = Member_s (s rqst), iov_len = sizeof_int\<rparr>] \<and>
      msg_iovlen m = 3 \<and> cmsg_level m = SOL_SOCKET \<and> cmsg_type m = SCM_RIGHTS \<and>
      length (cmsg_data m) = 2 \<and>
      (\<forall>fd \<in> set (cmsg_data m). 0 \<le> fd) \<and>
      (0 \<le> err_fd rqst \<longrightarrow> cmsg_data m ! SigmetRawErrFD = err_fd rqst) \<and>
      (0 \<le> hd_fd rqst \<longrightarrow> cmsg_data m ! SigmetRawHdrDataFD = hd_fd rqst) \<and>
      (err_fd rqst < 0 \<longrightarrow>
         (\<exists>d. open_rdonly os ''/dev/null'' = Some d \<and> cmsg_data m ! SigmetRawErrFD = int d)) \<and>
      (hd_fd rqst < 0 \<longrightarrow>
         (\<exists>d. open_rdonly os ''/dev/null'' = Some d \<and> cmsg_data m ! SigmetRawHdrDataFD = int d))"
    by (auto simp: SigmetRaw_Rqst_Send_def Let_def SigmetRawErrFD_def SigmetRawHdrDataFD_def
        SIGMETRAW_RQST_IOVLEN_def split: if_splits option.splits)
  show "send_ret (SigmetRaw_Rqst_Send os rqst) = 1 \<longleftrightarrow>
      (\<exists>m. sendmsg_arg (SigmetRaw_Rqst_Send os rqst) = Some m) \<and> sendmsg_ret os \<noteq> -1"
    by (auto simp: SigmetRaw_Rqst_Send_def Let_def split: if_splits option.splits)
qed

theorem SigmetRaw_Rqst_Send_shape_witness:
  "\<exists>m. sendmsg_arg (SigmetRaw_Rqst_Send (os_ok 7 24)
            (SigmetRaw_Rqst_Set_ShFD
               (SigmetRaw_Rqst_Set_SubCmd SigmetRaw_Rqst_Init SigmetRawVolumeHeaders) 5)) = Some m \<and>
       length (msg_iov m) = 3 \<and> cmsg_data m = [7, 5]"
proof -
  let ?rqst = "SigmetRaw_Rqst_Set_ShFD
               (SigmetRaw_Rqst_Set_SubCmd SigmetRaw_Rqst_Init SigmetRawVolumeHeaders) 5"
  note inst = SigmetRaw_Rqst_Send_shape [of "os_ok 7 24" ?rqst]
  have fds: "err_fd ?rqst = -1" "hd_fd ?rqst = 5"
    by (simp_all add: SigmetRaw_Rqst_Set_ShFD_def SigmetRaw_Rqst_Set_SubCmd_def
        SigmetRaw_Rqst_Init_def)
  have os: "\<not> cmsg_firsthdr_null (os_ok 7 24)" "open_rdonly (os_ok 7 24) ''/dev/null'' = Some 7"
    by (simp_all add: os_ok_def)
  from inst fds os obtain m where m: "sendmsg_arg (SigmetRaw_Rqst_Send (os_ok 7 24) ?rqst) = Some m"
    by auto
  with inst have shape: "length (msg_iov m) = 3" "length (cmsg_data m) = 2"
      "cmsg_data m ! SigmetRawErrFD = 7" "cmsg_data m ! SigmetRawHdrDataFD = 5"
    using fds os by auto
  then have "cmsg_data m = [7, 5]"
    by (auto simp: SigmetRawErrFD_def SigmetRawHdrDataFD_def length_Suc_conv numeral_2_eq_2)
  with m shape show ?thesis
    by blast
qed

text \<open>A send that reports success has handed a message to \<open>sendmsg\<close>.\<close>

lemma SigmetRaw_Rqst_Send_success:
  "send_ret (SigmetRaw_Rqst_Send os rqst) = 1 \<Longrightarrow> sendmsg_arg (SigmetRaw_Rqst_Send os rqst) \<noteq> None"
  by (auto simp: SigmetRaw_Rqst_Send_def Let_def split: if_splits option.splits)

section \<open>Properties of the client programs\<close>

subsection \<open>Auxiliary facts\<close>




lemma those_map_ex:
  "(\<And>x. x \<in> set xs \<Longrightarrow> \<exists>y. f x = Some y \<and> P x y) \<Longrightarrow>
     \<exists>ys. those (map f xs) = Some ys \<and> list_all2 P xs ys"
proof (induction xs)
  case Nil
  show ?case by simp
next
  case (Cons x xs)
  from Cons.prems [of x] obtain y where y: "f x = Some y" "P x y"
    by auto
  from Cons.IH Cons.prems obtain ys where ys: "those (map f xs) = Some ys" "list_all2 P xs ys"
    by auto
  from y ys show ?case
    by simp
qed

lemma list_all2_keys:
  "list_all2 (\<lambda>x l. key l = g x \<and> Q l) xs ls \<Longrightarrow> map key ls = map g xs \<and> (\<forall>l \<in> set ls. Q l)"
  by (induction xs ls rule: list_all2_induct) simp_all

lemma list_all2_product:
  "list_all2 (\<lambda>x ls. map key ls = map (Pair x) ys \<and> (\<forall>l \<in> set ls. Q l)) xs lss \<Longrightarrow>
     map key (concat lss) = List.product xs ys \<and> (\<forall>l \<in> set (concat lss). Q l)"
  by (induction xs lss rule: list_all2_induct) auto

lemma ray_at_dimensioned:
  assumes "dimensioned rays a b c" and "sw < a" and "r < b" and "0 \<le> y" and "nat y < c"
  shows "ray_at rays sw r y = Some (rays ! sw ! r ! nat y)"
proof -
  from assms(1,2) have sw: "sw < length rays" and "rays ! sw \<in> set rays"
    by (simp_all add: dimensioned_def)
  with assms(1,3) have r: "r < length (rays ! sw)" and "rays ! sw ! r \<in> set (rays ! sw)"
    by (simp_all add: dimensioned_def)
  with assms(1) \<open>rays ! sw \<in> set rays\<close> have "length (rays ! sw ! r) = c"
    by (simp add: dimensioned_def)
  with sw r assms(4,5) show ?thesis
    by (simp add: ray_at_def)
qed

lemma dimensioned_nth:
  assumes "dimensioned rays a b c" and "sw < a" and "r < b"
  shows "rays ! sw \<in> set rays" and "rays ! sw ! r \<in> set (rays ! sw)"
proof -
  from assms(1,2) show 1: "rays ! sw \<in> set rays"
    by (simp add: dimensioned_def)
  with assms(1,3) show "rays ! sw ! r \<in> set (rays ! sw)"
    by (simp add: dimensioned_def)
qed

lemma unat_word_of_int_type_idx:
  assumes "0 \<le> i" and "i < int (unat (n :: unsigned))"
  shows "unat (word_of_int i :: unsigned) = nat i"
proof -
  have "unat n < 4294967296"
    using unsigned_less [of n, where 'a = nat] by simp
  with assms have "i < 4294967296"
    by linarith
  then have "i < 2 ^ 32"
    by simp
  with assms(1) have "take_bit 32 i = i"
    by (simp only: take_bit_int_eq_self)
  then show ?thesis
    by (simp add: unat_eq_nat_uint uint_word_of_int_eq)
qed

lemma StorToVal_one:
  "d \<noteq> [] \<Longrightarrow> Sigmet_DataTypeStorToVal conv xt 1 [NaN] d = Some [conv xt (hd d)]"
  by (cases d) (simp_all add: Sigmet_DataTypeStorToVal_def)

lemma fp_add_NaN: "fp_add rnd t NaN = NaN"
  by (cases t) simp_all

lemma upt_unat_2: "[0..<unat (2 :: unsigned)] = [0, 1]"
  by (simp add: upt_rec)

lemma upt_0_2: "[0..<2] = [0, Suc 0]"
  by (simp add: upt_rec)

subsection \<open>The sweep index\<close>

lemma unat_UINT_MAX: "unat UINT_MAX = 4294967295"
  by (simp add: UINT_MAX_def)

lemma swp_range_eq:
  "swp_range i n = (if i = UINT_MAX then [0..<unat n] else [unat i])"
proof (cases "i = UINT_MAX")
  case True
  then show ?thesis
    by (simp add: swp_range_def SigmetRaw_GetAllSwps_def)
next
  case False
  have "unat i < 2 ^ 32"
    using unsigned_less [of i] by simp
  moreover have "unat i \<noteq> 4294967295"
    using False by (simp add: word_unat_eq_iff unat_UINT_MAX)
  ultimately have "(unat i + 1) mod 2 ^ 32 = unat i + 1"
    by simp
  then have "unat (i + 1) = Suc (unat i)"
    by (simp add: unat_word_ariths)
  then show ?thesis
    using False by (simp add: swp_range_def SigmetRaw_GetAllSwps_def)
qed

subsection \<open>Runs of \<open>ray_hdrs_fm_fl\<close>\<close>

text \<open>
  Under \<open>ray_hdrs_fm_fl_defined\<close> the function passes all its checks, every array access
  is in range, and it returns after printing one line for every ray of every sweep it goes
  through, in order, each with the time the specification gives the ray.
\<close>

lemma ray_tm_offset_defined:
  assumes "hav_xhdr \<Longrightarrow> xhdr = Some xt \<and> ray_at rays sw r y_hxdr = Some xray \<and>
             (case dat xray of None \<Rightarrow> stor_null_returns lib | Some d \<Rightarrow> d \<noteq> [])"
  shows "ray_tm_offset lib hav_xhdr xhdr rays y_hxdr sw r hdr =
           Some (if hav_xhdr then
                   (case dat xray of None \<Rightarrow> NaN | Some d \<Rightarrow> stor_to_val lib xt (hd d))
                 else float_of_unsigned (rounding lib) (tm hdr))"
proof (cases hav_xhdr)
  case False
  then show ?thesis
    by (simp add: ray_tm_offset_def)
next
  case True
  from assms [OF True] show ?thesis
    using True by (auto simp: ray_tm_offset_def StorToVal_one split: option.splits)
qed

lemma ray_hdrs_fm_fl_unfold:
  assumes "ray_hdrs_fm_fl_defined env lib fl vol_hdr type i_swp"
  shows "ray_hdrs_fm_fl env lib fl path type i_swp cmd =
           (case ray_hdrs_fm_fl_print lib (Sigmet_VolXHdr vol_hdr)
                   (Sigmet_DataTypeGet env ''DB_XHDR'')
                   (VolReadDat_swp_hdrs fl) (VolReadDat_rays fl)
                   (Sigmet_VolNumSwps vol_hdr) (Sigmet_VolNumRays vol_hdr)
                   (if type \<noteq> None then word_of_int (VolTypeIdx fl type)
                    else if Sigmet_VolXHdr vol_hdr then 1 else 0)
                   (VolTypeIdx fl (Sigmet_DataTypeGet env ''DB_XHDR'')) i_swp of
              None \<Rightarrow> Undefined_Behaviour
            | Some lines \<Rightarrow> Returns lines)"
proof -
  from assms have rd: "VolReadVHdr fl = Some vol_hdr" "fopen_ok fl"
      "calloc_swp_hdrs_ok fl" "calloc_rays_ok fl" "VolReadDat_rd fl \<noteq> 0" "VolTZSet_ok fl"
    and sw: "SigmetRaw_GetAllSwps i_swp \<or> \<not> Sigmet_VolNumSwps vol_hdr \<le> i_swp"
    and ty: "type \<noteq> None \<Longrightarrow> VolTypeIdx fl type \<noteq> -1"
    and xh: "Sigmet_VolXHdr vol_hdr \<Longrightarrow> VolIDatSz fl \<noteq> 0 \<and> malloc_dat_buf_ok fl"
    by (auto simp: ray_hdrs_fm_fl_defined_def)
  show ?thesis
  proof (cases "Sigmet_VolXHdr vol_hdr")
    case True
    with xh have "VolIDatSz fl \<noteq> 0" "malloc_dat_buf_ok fl"
      by simp_all
    with rd sw ty True show ?thesis
      by (cases type; cases "SigmetRaw_GetAllSwps i_swp") (simp_all add: ray_hdrs_fm_fl_def Let_def)
  next
    case False
    with rd sw ty show ?thesis
      by (cases type; cases "SigmetRaw_GetAllSwps i_swp") (simp_all add: ray_hdrs_fm_fl_def Let_def)
  qed
qed

lemma ray_hdrs_fm_fl_returns:
  assumes d: "ray_hdrs_fm_fl_defined env lib fl vol_hdr type i_swp"
  shows "\<exists>lines. ray_hdrs_fm_fl env lib fl path type i_swp cmd = Returns lines \<and>
           map (\<lambda>l. (ln_s l, ln_r l)) lines =
             List.product (swp_range i_swp (Sigmet_VolNumSwps vol_hdr))
               [0..<unat (Sigmet_VolNumRays vol_hdr)] \<and>
           (\<forall>l \<in> set lines.
              ln_time l =
                broken_down lib (spec_ray_time env lib fl vol_hdr type (ln_s l) (ln_r l)))"
proof -
  define hav where "hav = Sigmet_VolXHdr vol_hdr"
  define xhdr where "xhdr = Sigmet_DataTypeGet env ''DB_XHDR''"
  define yx where "yx = VolTypeIdx fl xhdr"
  define y :: unsigned where
    "y = (if type \<noteq> None then word_of_int (VolTypeIdx fl type) else if hav then 1 else 0)"
  define rays where "rays = VolReadDat_rays fl"
  define swp_hdrs where "swp_hdrs = VolReadDat_swp_hdrs fl"
  define n_swps where "n_swps = Sigmet_VolNumSwps vol_hdr"
  define n_rays where "n_rays = Sigmet_VolNumRays vol_hdr"
  define n_types where "n_types = Sigmet_VolNumTypes vol_hdr"
  define Q :: "ray_hdr_line \<Rightarrow> bool" where "Q = (\<lambda>l. ln_time l =
                broken_down lib (spec_ray_time env lib fl vol_hdr type (ln_s l) (ln_r l)))"
  note defs = hav_def xhdr_def yx_def y_def rays_def swp_hdrs_def n_swps_def n_rays_def
    n_types_def
  from d have idx: "SigmetRaw_GetAllSwps i_swp \<or> i_swp < n_swps"
    and ty: "type \<noteq> None \<Longrightarrow> 0 \<le> VolTypeIdx fl type \<and> VolTypeIdx fl type < int (unat n_types)"
    and ty0: "type = None \<Longrightarrow> (if hav then 1 else 0) < unat n_types"
    and len: "length swp_hdrs = unat n_swps"
    and dims: "dimensioned rays (unat n_swps) (unat n_rays) (unat n_types)"
    by (simp_all add: ray_hdrs_fm_fl_defined_def defs)
  have xh: "\<exists>xt. xhdr = Some xt \<and> 0 \<le> yx \<and> nat yx < unat n_types \<and>
              (\<forall>rs \<in> set rays. \<forall>ts \<in> set rs.
                 case dat (ts ! nat yx) of None \<Rightarrow> stor_null_returns lib | Some d \<Rightarrow> d \<noteq> [])"
    if hav
  proof -
    from d that have c: "case xhdr of
           None \<Rightarrow> False
         | Some xt \<Rightarrow>
             0 \<le> VolTypeIdx fl (Some xt) \<and>
             VolTypeIdx fl (Some xt) < int (unat n_types) \<and>
             (\<forall>rs \<in> set rays. \<forall>ts \<in> set rs.
                case dat (ts ! nat (VolTypeIdx fl (Some xt))) of
                  None \<Rightarrow> stor_null_returns lib
                | Some d \<Rightarrow> d \<noteq> [])"
      unfolding ray_hdrs_fm_fl_defined_def defs by blast
    then obtain xt where xt: "xhdr = Some xt"
      by (cases xhdr) simp_all
    then have yx_eq: "VolTypeIdx fl (Some xt) = yx"
      by (simp add: yx_def)
    from c have c': "0 \<le> yx \<and> yx < int (unat n_types) \<and>
             (\<forall>rs \<in> set rays. \<forall>ts \<in> set rs.
                case dat (ts ! nat yx) of
                  None \<Rightarrow> stor_null_returns lib
                | Some d \<Rightarrow> d \<noteq> [])"
      unfolding xt option.case yx_eq .
    then have "nat yx < unat n_types"
      by linarith
    with xt c' show ?thesis
      by blast
  qed
  have y_nat: "unat y = (case type of None \<Rightarrow> if hav then 1 else 0 | Some t \<Rightarrow> nat (VolTypeIdx fl type))"
  proof (cases type)
    case None
    then show ?thesis
      by (simp add: y_def)
  next
    case (Some t)
    with ty have "0 \<le> VolTypeIdx fl type" "VolTypeIdx fl type < int (unat n_types)"
      by simp_all
    from unat_word_of_int_type_idx [OF this] Some show ?thesis
      by (simp add: y_def)
  qed
  have y_lt: "unat y < unat n_types"
  proof (cases type)
    case None
    with ty0 y_nat show ?thesis
      by simp
  next
    case (Some t)
    with ty have "0 \<le> VolTypeIdx fl type" "VolTypeIdx fl type < int (unat n_types)"
      by simp_all
    then have "nat (VolTypeIdx fl type) < unat n_types"
      by linarith
    with y_nat Some show ?thesis
      by simp
  qed
  have range: "sw < unat n_swps" if "sw \<in> set (swp_range i_swp n_swps)" for sw
  proof (cases "i_swp = UINT_MAX")
    case True
    with that show ?thesis
      by (simp add: swp_range_eq)
  next
    case False
    with idx have "i_swp < n_swps"
      by (simp add: SigmetRaw_GetAllSwps_def)
    then have "unat i_swp < unat n_swps"
      by (simp add: word_less_nat_alt)
    with that False show ?thesis
      by (simp add: swp_range_eq)
  qed
  have line: "\<exists>l. ray_hdrs_fm_fl_line lib hav xhdr rays y yx (DTime lib (swp_tm (swp_hdrs ! sw))) sw r
                 = Some l \<and> (ln_s l, ln_r l) = (sw, r) \<and> Q l"
    if sw: "sw < unat n_swps" and r: "r < unat n_rays" for sw r
  proof -
    let ?ray = "rays ! sw ! r ! unat y"
    have ray: "ray_at rays sw r (int (unat y)) = Some ?ray"
      using ray_at_dimensioned [OF dims sw r, of "int (unat y)"] y_lt by simp
    show ?thesis
    proof (cases hav)
      case False
      then have off: "ray_tm_offset lib hav xhdr rays yx sw r (ray_hdr ?ray) =
          Some (float_of_unsigned (rounding lib) (tm (ray_hdr ?ray)))"
        using ray_tm_offset_defined [of hav xhdr undefined rays sw r yx undefined lib "ray_hdr ?ray"]
        by simp
      have "unat y = (case type of None \<Rightarrow> 0 | Some t \<Rightarrow> nat (VolTypeIdx fl type))"
        using y_nat False by (simp split: option.splits)
      then show ?thesis
        using False ray off
        by (simp add: ray_hdrs_fm_fl_line_def Q_def spec_ray_time_def Let_def defs)
    next
      case True
      from xh [OF True] obtain xt where xt: "xhdr = Some xt" and yx: "0 \<le> yx" "nat yx < unat n_types"
        and chunk: "\<forall>rs \<in> set rays. \<forall>ts \<in> set rs.
                 case dat (ts ! nat yx) of None \<Rightarrow> stor_null_returns lib | Some d \<Rightarrow> d \<noteq> []"
        by blast
      let ?xray = "rays ! sw ! r ! nat yx"
      have xray: "ray_at rays sw r yx = Some ?xray"
        by (rule ray_at_dimensioned [OF dims sw r yx])
      have ok: "case dat ?xray of None \<Rightarrow> stor_null_returns lib | Some d \<Rightarrow> d \<noteq> []"
        using chunk dimensioned_nth [OF dims sw r] by blast
      have off: "ray_tm_offset lib hav xhdr rays yx sw r (ray_hdr ?ray) =
          Some (case dat ?xray of None \<Rightarrow> NaN | Some d \<Rightarrow> stor_to_val lib xt (hd d))"
        using ray_tm_offset_defined [of hav xhdr xt rays sw r yx ?xray lib "ray_hdr ?ray"]
          True xt xray ok by simp
      have yx_eq: "VolTypeIdx fl (Some xt) = yx"
        using xt by (simp add: yx_def)
      show ?thesis
        using True ray off xt [unfolded xhdr_def] yx_eq
        by (simp add: ray_hdrs_fm_fl_line_def Q_def spec_ray_time_def Let_def
            hav_def [symmetric] rays_def [symmetric] swp_hdrs_def [symmetric] fp_add_NaN
            split: option.splits)
    qed
  qed
  have swp: "\<exists>ls. ray_hdrs_fm_fl_swp lib hav xhdr swp_hdrs rays n_rays y yx sw = Some ls \<and>
               map (\<lambda>l. (ln_s l, ln_r l)) ls = map (Pair sw) [0..<unat n_rays] \<and>
               (\<forall>l \<in> set ls. Q l)"
    if "sw \<in> set (swp_range i_swp n_swps)" for sw
  proof -
    from range [OF that] have sw: "sw < unat n_swps" .
    have "\<exists>ls. those (map (ray_hdrs_fm_fl_line lib hav xhdr rays y yx
                  (DTime lib (swp_tm (swp_hdrs ! sw))) sw) [0..<unat n_rays]) = Some ls \<and>
            list_all2 (\<lambda>r l. (ln_s l, ln_r l) = Pair sw r \<and> Q l) [0..<unat n_rays] ls"
      by (rule those_map_ex) (use line [OF sw] in auto)
    then obtain ls where ls: "those (map (ray_hdrs_fm_fl_line lib hav xhdr rays y yx
                  (DTime lib (swp_tm (swp_hdrs ! sw))) sw) [0..<unat n_rays]) = Some ls"
      and all2: "list_all2 (\<lambda>r l. (ln_s l, ln_r l) = Pair sw r \<and> Q l) [0..<unat n_rays] ls"
      by blast
    from list_all2_keys [OF all2] ls sw len show ?thesis
      by (simp add: ray_hdrs_fm_fl_swp_def)
  qed
  have "\<exists>lss. those (map (ray_hdrs_fm_fl_swp lib hav xhdr swp_hdrs rays n_rays y yx)
                 (swp_range i_swp n_swps)) = Some lss \<and>
          list_all2 (\<lambda>sw ls. map (\<lambda>l. (ln_s l, ln_r l)) ls = map (Pair sw) [0..<unat n_rays] \<and>
                       (\<forall>l \<in> set ls. Q l)) (swp_range i_swp n_swps) lss"
    by (rule those_map_ex) (use swp in auto)
  then obtain lss where lss: "those (map (ray_hdrs_fm_fl_swp lib hav xhdr swp_hdrs rays n_rays y yx)
                 (swp_range i_swp n_swps)) = Some lss"
    and all2: "list_all2 (\<lambda>sw ls. map (\<lambda>l. (ln_s l, ln_r l)) ls = map (Pair sw) [0..<unat n_rays] \<and>
                       (\<forall>l \<in> set ls. Q l)) (swp_range i_swp n_swps) lss"
    by blast
  from lss have print: "ray_hdrs_fm_fl_print lib hav xhdr swp_hdrs rays n_swps n_rays y yx i_swp =
      Some (concat lss)"
    by (simp add: ray_hdrs_fm_fl_print_def)
  have run: "ray_hdrs_fm_fl env lib fl path type i_swp cmd = Returns (concat lss)"
    using ray_hdrs_fm_fl_unfold [OF d, of path cmd] print
    unfolding defs by (simp only: option.case)
  from list_all2_product [OF all2] run show ?thesis
    unfolding Q_def n_swps_def n_rays_def by blast
qed

lemma example_XHdr: "Sigmet_VolXHdr example_vol_hdr"
  by (simp add: Sigmet_VolXHdr_def example_vol_hdr_def)

lemma example_dims:
  "Sigmet_VolNumSwps example_vol_hdr = 2" "Sigmet_VolNumRays example_vol_hdr = 2"
  "Sigmet_VolNumTypes example_vol_hdr = 2"
  by (simp_all add: Sigmet_VolNumSwps_def Sigmet_VolNumRays_def Sigmet_VolNumTypes_def
      example_vol_hdr_def)

lemma example_defined:
  "ray_hdrs_fm_fl_defined example_env example_lib example_fl example_vol_hdr None UINT_MAX"
  "ray_hdrs_fm_fl_defined example_env example_lib example_fl example_vol_hdr None 1"
  by (simp_all add: ray_hdrs_fm_fl_defined_def example_XHdr example_dims
      SigmetRaw_GetAllSwps_def dimensioned_def example_fl_def example_env_def example_lib_def
      example_rays_def example_ray_def example_swp_hdrs_def)


text \<open>
  Claim C8. \<open>UINT_MAX\<close> as sweep index means all sweeps. Given the argument \<open>all\<close> (and
  otherwise acceptable arguments), \<open>main\<close> of \<open>ray_headers\<close> calls \<open>ray_hdrs_fm_fl\<close> for a
  file or fifo and \<open>ray_hdrs_fm_skt\<close> for a socket with the sweep index \<open>UINT_MAX\<close>; the
  request built for the daemon carries the sweep index unchanged;
  \<open>SigmetRaw_GetAllSwps\<close> holds exactly for \<open>UINT_MAX\<close>. \<open>ray_hdrs_fm_fl\<close>, on a volume it
  can read, prints the rays of all sweeps of the volume when the index is \<open>UINT_MAX\<close>,
  which is exempt from the range check, and the rays of the single sweep the index names
  otherwise; an index that is not \<open>UINT_MAX\<close> and not below the number of sweeps makes it
  exit with a failure status before anything is printed.
\<close>

theorem all_sweeps_iff_UINT_MAX:
  "((length argv = 3 \<or> length argv = 4 \<and> Sigmet_DataTypeGet env (argv ! 2) \<noteq> None) \<and>
    argv ! 1 = ''all'' \<longrightarrow>
      (stat_kind env (argv ! (length argv - 1)) = Some Regular_File \<or>
       stat_kind env (argv ! (length argv - 1)) = Some Fifo \<longrightarrow>
         ray_headers_main env argv =
           Call (Ray_hdrs_fm_fl (argv ! (length argv - 1))
                   (if length argv = 4 then Sigmet_DataTypeGet env (argv ! 2) else None)
                   UINT_MAX (cmd_name env argv))) \<and>
      (stat_kind env (argv ! (length argv - 1)) = Some Socket \<longrightarrow>
         ray_headers_main env argv =
           Call (Ray_hdrs_fm_skt (argv ! (length argv - 1))
                   (if length argv = 4 then Sigmet_DataTypeGet env (argv ! 2) else None)
                   UINT_MAX (cmd_name env argv)))) \<and>
   s (ray_hdrs_fm_skt_rqst abbrv_of type i_swp fd1 fd2) = i_swp \<and>
   (SigmetRaw_GetAllSwps i_swp \<longleftrightarrow> i_swp = UINT_MAX) \<and>
   (ray_hdrs_fm_fl_defined env lib fl vol_hdr type i_swp \<longrightarrow>
      (\<exists>lines. ray_hdrs_fm_fl env lib fl path type i_swp cmd = Returns lines \<and>
         map (\<lambda>l. (ln_s l, ln_r l)) lines =
           List.product
             (if i_swp = UINT_MAX then [0..<unat (Sigmet_VolNumSwps vol_hdr)] else [unat i_swp])
             [0..<unat (Sigmet_VolNumRays vol_hdr)])) \<and>
   (fopen_ok fl \<and> VolReadVHdr fl = Some vol_hdr \<and> i_swp \<noteq> UINT_MAX \<and>
    Sigmet_VolNumSwps vol_hdr \<le> i_swp \<longrightarrow>
      ray_hdrs_fm_fl env lib fl path type i_swp cmd =
        Exits EXIT_FAILURE (cmd @ '': sweep index out of range. Volume '' @ path) [])"
proof (intro conjI impI)
  assume a: "(length argv = 3 \<or> length argv = 4 \<and> Sigmet_DataTypeGet env (argv ! 2) \<noteq> None) \<and>
    argv ! 1 = ''all''"
  {
    assume "stat_kind env (argv ! (length argv - 1)) = Some Regular_File \<or>
       stat_kind env (argv ! (length argv - 1)) = Some Fifo"
    with a show "ray_headers_main env argv =
           Call (Ray_hdrs_fm_fl (argv ! (length argv - 1))
                   (if length argv = 4 then Sigmet_DataTypeGet env (argv ! 2) else None)
                   UINT_MAX (cmd_name env argv))"
      by (auto simp: ray_headers_main_def Let_def)
  }
  {
    assume "stat_kind env (argv ! (length argv - 1)) = Some Socket"
    with a show "ray_headers_main env argv =
           Call (Ray_hdrs_fm_skt (argv ! (length argv - 1))
                   (if length argv = 4 then Sigmet_DataTypeGet env (argv ! 2) else None)
                   UINT_MAX (cmd_name env argv))"
      by (auto simp: ray_headers_main_def Let_def)
  }
next
  show "s (ray_hdrs_fm_skt_rqst abbrv_of type i_swp fd1 fd2) = i_swp"
    by (simp add: ray_hdrs_fm_skt_rqst_def SigmetRaw_Rqst_Set_ErrFD_def
        SigmetRaw_Rqst_Set_ShFD_def SigmetRaw_Rqst_Set_DataType_def SigmetRaw_Rqst_Set_Swp_def)
next
  show "SigmetRaw_GetAllSwps i_swp \<longleftrightarrow> i_swp = UINT_MAX"
    by (simp add: SigmetRaw_GetAllSwps_def)
next
  assume "ray_hdrs_fm_fl_defined env lib fl vol_hdr type i_swp"
  from ray_hdrs_fm_fl_returns [OF this, of path cmd]
  show "\<exists>lines. ray_hdrs_fm_fl env lib fl path type i_swp cmd = Returns lines \<and>
         map (\<lambda>l. (ln_s l, ln_r l)) lines =
           List.product
             (if i_swp = UINT_MAX then [0..<unat (Sigmet_VolNumSwps vol_hdr)] else [unat i_swp])
             [0..<unat (Sigmet_VolNumRays vol_hdr)]"
    unfolding swp_range_eq by blast
next
  assume "fopen_ok fl \<and> VolReadVHdr fl = Some vol_hdr \<and> i_swp \<noteq> UINT_MAX \<and>
    Sigmet_VolNumSwps vol_hdr \<le> i_swp"
  then show "ray_hdrs_fm_fl env lib fl path type i_swp cmd =
        Exits EXIT_FAILURE (cmd @ '': sweep index out of range. Volume '' @ path) []"
    by (simp add: ray_hdrs_fm_fl_def SigmetRaw_GetAllSwps_def Let_def)
qed

theorem all_sweeps_iff_UINT_MAX_witness:
  "ray_headers_main example_env [''/usr/bin/ray_headers'', ''all'', ''/tmp/vol.raw''] =
     Call (Ray_hdrs_fm_fl ''/tmp/vol.raw'' None UINT_MAX ''ray_headers'') \<and>
   ray_headers_main example_env [''/usr/bin/ray_headers'', ''all'', ''/tmp/sigmet.skt''] =
     Call (Ray_hdrs_fm_skt ''/tmp/sigmet.skt'' None UINT_MAX ''ray_headers'') \<and>
   s (ray_hdrs_fm_skt_rqst (\<lambda>t. ''DB_DBZ'') (None :: example_type option) UINT_MAX 4 6) = UINT_MAX \<and>
   SigmetRaw_GetAllSwps UINT_MAX \<and> \<not> SigmetRaw_GetAllSwps 1 \<and>
   (\<exists>lines. ray_hdrs_fm_fl example_env example_lib example_fl ''/tmp/vol.raw'' None UINT_MAX
              ''ray_headers'' = Returns lines \<and>
            map (\<lambda>l. (ln_s l, ln_r l)) lines = [(0, 0), (0, 1), (1, 0), (1, 1)]) \<and>
   (\<exists>lines. ray_hdrs_fm_fl example_env example_lib example_fl ''/tmp/vol.raw'' None 1
              ''ray_headers'' = Returns lines \<and>
            map (\<lambda>l. (ln_s l, ln_r l)) lines = [(1, 0), (1, 1)]) \<and>
   ray_hdrs_fm_fl example_env example_lib example_fl ''/tmp/vol.raw'' None 2 ''ray_headers'' =
     Exits EXIT_FAILURE (''ray_headers: sweep index out of range. Volume /tmp/vol.raw'') []"
proof -
  let ?file = "[''/usr/bin/ray_headers'', ''all'', ''/tmp/vol.raw'']"
  let ?skt = "[''/usr/bin/ray_headers'', ''all'', ''/tmp/sigmet.skt'']"
  have ne: "(1 :: unsigned) \<noteq> UINT_MAX" "(2 :: unsigned) \<noteq> UINT_MAX"
    by (simp_all add: UINT_MAX_def)
  have fl: "fopen_ok example_fl" "VolReadVHdr example_fl = Some example_vol_hdr"
    by (simp_all add: example_fl_def)
  have names: "cmd_name example_env ?file = ''ray_headers''"
      "cmd_name example_env ?skt = ''ray_headers''"
    by (simp_all add: cmd_name_def example_env_def)
  have kinds: "stat_kind example_env ''/tmp/vol.raw'' = Some Regular_File"
      "stat_kind example_env ''/tmp/sigmet.skt'' = Some Socket"
    by (simp_all add: example_env_def)
  note all_file = all_sweeps_iff_UINT_MAX [of ?file example_env "\<lambda>t. ''DB_DBZ''" None UINT_MAX 4 6
      example_lib example_fl example_vol_hdr "''/tmp/vol.raw''" "''ray_headers''"]
  note all_skt = all_sweeps_iff_UINT_MAX [of ?skt example_env "\<lambda>t. ''DB_DBZ''" None UINT_MAX 4 6
      example_lib example_fl example_vol_hdr "''/tmp/vol.raw''" "''ray_headers''"]
  note one = all_sweeps_iff_UINT_MAX [of ?file example_env "\<lambda>t. ''DB_DBZ''" None 1 4 6
      example_lib example_fl example_vol_hdr "''/tmp/vol.raw''" "''ray_headers''"]
  note two = all_sweeps_iff_UINT_MAX [of ?file example_env "\<lambda>t. ''DB_DBZ''" None 2 4 6
      example_lib example_fl example_vol_hdr "''/tmp/vol.raw''" "''ray_headers''"]
  from all_file names kinds have a: "ray_headers_main example_env ?file =
     Call (Ray_hdrs_fm_fl ''/tmp/vol.raw'' None UINT_MAX ''ray_headers'')"
    by simp
  from all_skt names kinds have b: "ray_headers_main example_env ?skt =
     Call (Ray_hdrs_fm_skt ''/tmp/sigmet.skt'' None UINT_MAX ''ray_headers'')"
    by simp
  from all_file have c: "s (ray_hdrs_fm_skt_rqst (\<lambda>t. ''DB_DBZ'') (None :: example_type option)
      UINT_MAX 4 6) = UINT_MAX"
    by blast
  from all_file one ne have d: "SigmetRaw_GetAllSwps UINT_MAX" "\<not> SigmetRaw_GetAllSwps 1"
    by blast+
  from all_file example_defined(1)
  have "\<exists>lines. ray_hdrs_fm_fl example_env example_lib example_fl ''/tmp/vol.raw'' None UINT_MAX
              ''ray_headers'' = Returns lines \<and>
            map (\<lambda>l. (ln_s l, ln_r l)) lines =
              List.product
                (if UINT_MAX = UINT_MAX then [0..<unat (Sigmet_VolNumSwps example_vol_hdr)]
                 else [unat UINT_MAX])
                [0..<unat (Sigmet_VolNumRays example_vol_hdr)]"
    by blast
  then have e: "\<exists>lines. ray_hdrs_fm_fl example_env example_lib example_fl ''/tmp/vol.raw'' None UINT_MAX
              ''ray_headers'' = Returns lines \<and>
            map (\<lambda>l. (ln_s l, ln_r l)) lines = [(0, 0), (0, 1), (1, 0), (1, 1)]"
    by (simp add: example_dims upt_unat_2 upt_0_2)
  from one example_defined(2)
  have "\<exists>lines. ray_hdrs_fm_fl example_env example_lib example_fl ''/tmp/vol.raw'' None 1
              ''ray_headers'' = Returns lines \<and>
            map (\<lambda>l. (ln_s l, ln_r l)) lines =
              List.product
                (if 1 = UINT_MAX then [0..<unat (Sigmet_VolNumSwps example_vol_hdr)]
                 else [unat (1 :: unsigned)])
                [0..<unat (Sigmet_VolNumRays example_vol_hdr)]"
    by blast
  then have f: "\<exists>lines. ray_hdrs_fm_fl example_env example_lib example_fl ''/tmp/vol.raw'' None 1
              ''ray_headers'' = Returns lines \<and>
            map (\<lambda>l. (ln_s l, ln_r l)) lines = [(1, 0), (1, 1)]"
    using ne by (simp add: example_dims upt_unat_2 upt_0_2)
  have "Sigmet_VolNumSwps example_vol_hdr \<le> 2"
    by (simp add: example_dims)
  with two fl ne
  have g: "ray_hdrs_fm_fl example_env example_lib example_fl ''/tmp/vol.raw'' None 2 ''ray_headers'' =
     Exits EXIT_FAILURE (''ray_headers: sweep index out of range. Volume /tmp/vol.raw'') []"
    by simp
  from a b c d e f g show ?thesis
    by blast
qed

subsection \<open>An abbreviation that is no data type\<close>

text \<open>
  Claim C5 has the daemon answer such a request with status Error. The programs never get
  that far: \<open>main\<close> looks the abbreviation up itself and exits before any function that
  connects to the daemon is called, even when the path names the daemon's socket (a known
  type with the same arguments does reach the daemon).
\<close>

theorem unknown_type_counterexample:
  "data_main example_env [''/usr/bin/data'', ''DB_FOO'', ''0'', ''/tmp/sigmet.skt''] =
     Exit EXIT_FAILURE (''data: DB_FOO is not a Sigmet data type.'' @ [CHR 0x0A]) \<and>
   \<not> contacts_daemon data_call_uses_daemon
       (data_main example_env [''/usr/bin/data'', ''DB_FOO'', ''0'', ''/tmp/sigmet.skt'']) \<and>
   contacts_daemon data_call_uses_daemon
       (data_main example_env [''/usr/bin/data'', ''DB_DBZ'', ''0'', ''/tmp/sigmet.skt''])"
  by (simp add: data_main_def example_env_def cmd_name_def Let_def EXIT_FAILURE_def)

text \<open>
  Claim C5 as the code has it: when the data-type argument of \<open>data\<close> (with or without
  \<open>-b\<close>) or of \<open>ray_headers\<close> is not a registered type, the program writes
  \<open><cmd>: <abbreviation> is not a Sigmet data type.\<close> to standard error and exits with the
  non-zero status \<open>EXIT_FAILURE\<close>, without contacting the daemon.
\<close>

theorem unknown_type_exits_before_daemon:
  assumes "Sigmet_DataTypeGet env str = None"
  shows "(length argv = 4 \<and> argv ! 1 = str \<or> length argv = 5 \<and> argv ! 1 = ''-b'' \<and> argv ! 2 = str \<longrightarrow>
            data_main env argv =
              Exit EXIT_FAILURE
                (cmd_name env argv @ '': '' @ str @ '' is not a Sigmet data type.'' @ [CHR 0x0A]) \<and>
            \<not> contacts_daemon data_call_uses_daemon (data_main env argv)) \<and>
         (length argv = 4 \<and> argv ! 2 = str \<longrightarrow>
            ray_headers_main env argv =
              Exit EXIT_FAILURE
                (cmd_name env argv @ '': '' @ str @ '' is not a Sigmet data type.'' @ [CHR 0x0A]) \<and>
            \<not> contacts_daemon ray_headers_call_uses_daemon (ray_headers_main env argv)) \<and>
         EXIT_FAILURE \<noteq> 0"
  using assms
  by (auto simp: data_main_def ray_headers_main_def Let_def EXIT_FAILURE_def)

theorem unknown_type_exits_before_daemon_witness:
  "Sigmet_DataTypeGet example_env ''DB_FOO'' = None \<and>
   data_main example_env [''/usr/bin/data'', ''DB_FOO'', ''0'', ''/tmp/sigmet.skt''] =
     Exit EXIT_FAILURE (''data: DB_FOO is not a Sigmet data type.'' @ [CHR 0x0A]) \<and>
   data_main example_env [''/usr/bin/data'', ''-b'', ''DB_FOO'', ''0'', ''/tmp/sigmet.skt''] =
     Exit EXIT_FAILURE (''data: DB_FOO is not a Sigmet data type.'' @ [CHR 0x0A]) \<and>
   ray_headers_main example_env [''/usr/bin/ray_headers'', ''all'', ''DB_FOO'', ''/tmp/sigmet.skt''] =
     Exit EXIT_FAILURE (''ray_headers: DB_FOO is not a Sigmet data type.'' @ [CHR 0x0A])"
proof -
  have h: "Sigmet_DataTypeGet example_env ''DB_FOO'' = None"
    by (simp add: example_env_def)
  have names: "cmd_name example_env [''/usr/bin/data'', ''DB_FOO'', ''0'', ''/tmp/sigmet.skt''] = ''data''"
    "cmd_name example_env [''/usr/bin/data'', ''-b'', ''DB_FOO'', ''0'', ''/tmp/sigmet.skt''] = ''data''"
    "cmd_name example_env [''/usr/bin/ray_headers'', ''all'', ''DB_FOO'', ''/tmp/sigmet.skt''] = ''ray_headers''"
    by (simp_all add: cmd_name_def example_env_def)
  from unknown_type_exits_before_daemon [OF h, of "[''/usr/bin/data'', ''DB_FOO'', ''0'', ''/tmp/sigmet.skt'']"]
    unknown_type_exits_before_daemon [OF h, of "[''/usr/bin/data'', ''-b'', ''DB_FOO'', ''0'', ''/tmp/sigmet.skt'']"]
    unknown_type_exits_before_daemon [OF h, of "[''/usr/bin/ray_headers'', ''all'', ''DB_FOO'', ''/tmp/sigmet.skt'']"]
  show ?thesis
    using h names by simp
qed
subsection \<open>Ray times\<close>


subsection \<open>Text output of the data subcommand\<close>






















subsection \<open>Receiving the response\<close>

lemma recvmsg_scatter_concat:
  "map length elems = ns \<Longrightarrow> recvmsg_scatter ns (concat elems) = elems"
  by (induction elems arbitrary: ns) auto

text \<open>
  A receiver whose \<open>iovec\<close> array has the fixed shape gets every element of the response
  into its own buffer, and a receiver of the status alone gets the status.
\<close>

lemma fixed_shape_parses:
  assumes "rps_well_formed err_len elems"
  shows "client_recvmsg (fixed_shape err_len) elems = elems"
proof -
  have "map snd (fixed_shape err_len) = map (rps_elem_len err_len) rps_indices"
    by (simp add: fixed_shape_def comp_def)
  with assms show ?thesis
    by (simp add: client_recvmsg_def daemon_sendmsg_def rps_well_formed_def recvmsg_scatter_concat)
qed

lemma status_only_parses:
  assumes "rps_well_formed err_len elems"
  shows "client_recvmsg skt_to_bin_rps_iov elems = [elems ! rps_index_value SigmetRawRpsStatus]"
    and "client_recvmsg skt_to_txt_dat_rps_iov elems = [elems ! rps_index_value SigmetRawRpsStatus]"
proof -
  from assms obtain e0 rest where "elems = e0 # rest" "length e0 = sizeof_int"
    by (cases elems) (auto simp: rps_well_formed_def rps_indices_def rps_elem_len_def)
  then show "client_recvmsg skt_to_bin_rps_iov elems = [elems ! rps_index_value SigmetRawRpsStatus]"
    and "client_recvmsg skt_to_txt_dat_rps_iov elems = [elems ! rps_index_value SigmetRawRpsStatus]"
    by (simp_all add: client_recvmsg_def daemon_sendmsg_def skt_to_bin_rps_iov_def
        skt_to_txt_dat_rps_iov_def)
qed

text \<open>
  Claim C3 says that every client receive parses the response under the fixed shape of
  seven elements. The \<open>iovec\<close> arrays of \<open>ray_hdrs_fm_skt\<close> and of the ray-header exchange
  of \<open>skt_to_txt\<close> have four and five elements and leave out elements in the middle. On
  the example response, \<open>ray_hdrs_fm_skt\<close> receives into \<open>tz\<close> the number of bins
  followed by seven bytes of the sweep time, and \<open>skt_to_txt\<close> receives into \<open>swp_tm\<close>
  the number of bins followed by half of the sweep time, and into \<open>tz\<close> something other
  than the time zone.
\<close>

theorem response_misparsed:
  "rps_well_formed 4 example_response \<and>
   length example_response = SIGMETRAW_RPS_IOVLEN \<and>
   length ray_hdrs_fm_skt_rps_iov = 4 \<and>
   ray_hdrs_fm_skt_rps_iov ! 3 = (SigmetRawRpsTZ, SIGMET_TZ_STRLEN) \<and>
   client_recvmsg ray_hdrs_fm_skt_rps_iov example_response ! 3 =
     example_response ! rps_index_value SigmetRawRpsNumSwpBins @
     take 7 (example_response ! rps_index_value SigmetRawRpsSwpTm) \<and>
   client_recvmsg ray_hdrs_fm_skt_rps_iov example_response ! 3 \<noteq>
     example_response ! rps_index_value SigmetRawRpsTZ \<and>
   length skt_to_txt_rh_rps_iov = 5 \<and>
   skt_to_txt_rh_rps_iov ! 3 = (SigmetRawRpsSwpTm, sizeof_double) \<and>
   client_recvmsg skt_to_txt_rh_rps_iov example_response ! 3 =
     example_response ! rps_index_value SigmetRawRpsNumSwpBins @
     take 4 (example_response ! rps_index_value SigmetRawRpsSwpTm) \<and>
   client_recvmsg skt_to_txt_rh_rps_iov example_response ! 3 \<noteq>
     example_response ! rps_index_value SigmetRawRpsSwpTm \<and>
   client_recvmsg skt_to_txt_rh_rps_iov example_response ! 4 \<noteq>
     example_response ! rps_index_value SigmetRawRpsTZ"
  by (simp add: rps_well_formed_def rps_indices_def rps_elem_len_def example_response_def
      SIGMETRAW_RPS_IOVLEN_def ray_hdrs_fm_skt_rps_iov_def skt_to_txt_rh_rps_iov_def
      client_recvmsg_def daemon_sendmsg_def sizeof_int_def sizeof_double_def SIGMET_TZ_STRLEN_def)

section \<open>Properties of the binary angle conversions\<close>

lemma rounded_product_bound:
  fixes a b e :: real
  assumes r: "rounds_within e rnd" and e: "0 \<le> e" "e \<le> 1 / 4" and a: "0 \<le> a" and b: "0 \<le> b"
  shows "\<bar>rnd (rnd a * rnd b) - a * b\<bar> \<le> 4 * e * (a * b)"
proof -
  define a' where "a' = rnd a"
  define b' where "b' = rnd b"
  have ra: "\<bar>a' - a\<bar> \<le> e * a"
    using r a unfolding rounds_within_def a'_def by (metis abs_of_nonneg)
  have rb: "\<bar>b' - b\<bar> \<le> e * b"
    using r b unfolding rounds_within_def b'_def by (metis abs_of_nonneg)
  have a'0: "0 \<le> a'"
  proof -
    have "e * a \<le> a"
      using e a by (simp add: mult_left_le_one_le)
    with ra show ?thesis
      by linarith
  qed
  have b'0: "0 \<le> b'"
  proof -
    have "e * b \<le> b"
      using e b by (simp add: mult_left_le_one_le)
    with rb show ?thesis
      by linarith
  qed
  have a'le: "a' \<le> (1 + e) * a"
    using ra by (simp add: algebra_simps)
  have b'le: "b' \<le> (1 + e) * b"
    using rb by (simp add: algebra_simps)
  have prod_le: "a' * b' \<le> (1 + e) * (1 + e) * (a * b)"
  proof -
    have "a' * b' \<le> ((1 + e) * a) * ((1 + e) * b)"
      using a'le b'le a'0 b'0 by (intro mult_mono) (auto intro: mult_nonneg_nonneg simp: e a)
    then show ?thesis
      by (simp add: algebra_simps)
  qed
  have rc: "\<bar>rnd (a' * b') - a' * b'\<bar> \<le> e * (a' * b')"
    using r a'0 b'0 unfolding rounds_within_def
    by (metis abs_of_nonneg mult_nonneg_nonneg)
  have t1: "\<bar>rnd (a' * b') - a' * b'\<bar> \<le> e * ((1 + e) * (1 + e) * (a * b))"
    using rc prod_le e(1) by (meson mult_left_mono order_trans)
  have "a' * b' - a * b = a' * (b' - b) + (a' - a) * b"
    by (simp add: algebra_simps)
  then have "\<bar>a' * b' - a * b\<bar> \<le> \<bar>a' * (b' - b)\<bar> + \<bar>(a' - a) * b\<bar>"
    by (metis abs_triangle_ineq)
  also have "\<dots> = a' * \<bar>b' - b\<bar> + \<bar>a' - a\<bar> * b"
    using a'0 b by (simp add: abs_mult)
  also have "\<dots> \<le> ((1 + e) * a) * (e * b) + (e * a) * b"
  proof (intro add_mono mult_mono)
    show "a' \<le> (1 + e) * a" by (rule a'le)
    show "\<bar>b' - b\<bar> \<le> e * b" by (rule rb)
    show "\<bar>a' - a\<bar> \<le> e * a" by (rule ra)
    show "0 \<le> (1 + e) * a" using e a by simp
    show "0 \<le> e * a" using e a by simp
  qed (use b in simp_all)
  finally have t2: "\<bar>a' * b' - a * b\<bar> \<le> e * ((2 + e) * (a * b))"
    by (simp add: algebra_simps)
  have "\<bar>rnd (a' * b') - a * b\<bar> \<le> \<bar>rnd (a' * b') - a' * b'\<bar> + \<bar>a' * b' - a * b\<bar>"
    by simp
  also have "\<dots> \<le> e * ((1 + e) * (1 + e) * (a * b)) + e * ((2 + e) * (a * b))"
    using t1 t2 by (rule add_mono)
  also have "\<dots> = e * (((1 + e) * (1 + e) + (2 + e)) * (a * b))"
    by (simp add: algebra_simps)
  also have "\<dots> \<le> e * (4 * (a * b))"
  proof (intro mult_left_mono mult_right_mono)
    have "(1 + e) * (1 + e) \<le> (1 + 1 / 4) * (1 + 1 / 4)"
      using e by (intro mult_mono) simp_all
    then show "(1 + e) * (1 + e) + (2 + e) \<le> 4"
      using e by simp
    show "0 \<le> a * b" using a b by simp
    show "0 \<le> e" by (rule e)
  qed
  finally show ?thesis
    unfolding a'_def b'_def by (simp add: algebra_simps)
qed

lemma roundtrip_within_half:
  fixes n N :: real
  assumes r: "rounds_within (1 / 2 ^ 53) rnd" and n: "0 \<le> n" "n < N" and N: "0 < N" "N \<le> 2 ^ 32"
  shows "\<bar>rnd (rnd (n / N) * rnd (2 * pi)) / (2 * pi) * N - n\<bar> < 1 / 2"
proof -
  let ?e = "1 / 2 ^ 53 :: real"
  let ?R = "rnd (rnd (n / N) * rnd (2 * pi))"
  have pi2: "0 < 2 * pi"
    by simp
  have "\<bar>?R - n / N * (2 * pi)\<bar> \<le> 4 * ?e * (n / N * (2 * pi))"
    using r n N by (intro rounded_product_bound) simp_all
  then have "\<bar>?R - n / N * (2 * pi)\<bar> / (2 * pi) * N \<le> 4 * ?e * (n / N * (2 * pi)) / (2 * pi) * N"
    using pi2 N by (intro mult_right_mono divide_right_mono) simp_all
  also have "4 * ?e * (n / N * (2 * pi)) / (2 * pi) * N = 4 * ?e * n"
    using N by simp
  also have "\<bar>?R - n / N * (2 * pi)\<bar> / (2 * pi) * N = \<bar>(?R - n / N * (2 * pi)) / (2 * pi) * N\<bar>"
    using N by (simp add: abs_mult)
  also have "(?R - n / N * (2 * pi)) / (2 * pi) * N = ?R / (2 * pi) * N - n"
    using N by (simp add: field_simps)
  finally have "\<bar>?R / (2 * pi) * N - n\<bar> \<le> 4 * ?e * n" .
  also have "\<dots> < 4 * ?e * 2 ^ 32"
    using n N by simp
  also have "\<dots> < 1 / 2"
    by simp
  finally show ?thesis .
qed

text \<open>
  Claim C9. When every operation rounds with relative error at most \<open>2\<^sup>-\<^sup>5\<^sup>3\<close>,
  \<open>Sigmet_Bin2Rad u\<close> differs from \<open>(u / 65536) \<times> 2\<pi>\<close> by at most four such relative
  errors, and turning it back into a binary angle misses \<open>u\<close> by less than one half:
  \<open>\<bar>Sigmet_Bin2Rad u / 2\<pi> \<times> 65536 - u\<bar> < 0.5\<close> for every 16-bit \<open>u\<close>. The same holds for
  \<open>Sigmet_Bin4Rad\<close> with \<open>2\<^sup>3\<^sup>2\<close> on every 32-bit value.
\<close>

theorem binary_angle_roundtrip_bound:
  assumes "rounds_within (1 / 2 ^ 53) rnd"
  shows "\<bar>Sigmet_Bin2Rad rnd u - real (unat u) / 65536 * (2 * pi)\<bar>
           \<le> 4 * (1 / 2 ^ 53) * (real (unat u) / 65536 * (2 * pi)) \<and>
         \<bar>Sigmet_Bin2Rad rnd u / (2 * pi) * 65536 - real (unat u)\<bar> < 1 / 2 \<and>
         \<bar>Sigmet_Bin4Rad rnd v - real (unat v) / 4294967296 * (2 * pi)\<bar>
           \<le> 4 * (1 / 2 ^ 53) * (real (unat v) / 4294967296 * (2 * pi)) \<and>
         \<bar>Sigmet_Bin4Rad rnd v / (2 * pi) * 4294967296 - real (unat v)\<bar> < 1 / 2"
proof -
  have "unat u < 65536"
    using unsigned_less [of u, where 'a = nat] by simp
  then have "real (unat u) < real 65536"
    by (simp only: of_nat_less_iff)
  then have u: "real (unat u) < 65536"
    by (simp only: of_nat_numeral)
  have "unat v < 4294967296"
    using unsigned_less [of v, where 'a = nat] by simp
  then have "real (unat v) < real 4294967296"
    by (simp only: of_nat_less_iff)
  then have v: "real (unat v) < 4294967296"
    by (simp only: of_nat_numeral)
  have e: "(0::real) \<le> 1 / 2 ^ 53" "(1::real) / 2 ^ 53 \<le> 1 / 4"
    by simp_all
  have u0: "0 \<le> real (unat u)" and v0: "0 \<le> real (unat v)"
    by (rule of_nat_0_le_iff)+
  have qu: "0 \<le> real (unat u) / 65536"
    using u0 by (rule divide_nonneg_nonneg) simp
  have qv: "0 \<le> real (unat v) / 4294967296"
    using v0 by (rule divide_nonneg_nonneg) simp
  have p: "0 \<le> 2 * pi"
    by simp
  have N16: "(0::real) < 65536" "(65536::real) \<le> 2 ^ 32"
    and N32: "(0::real) < 4294967296" "(4294967296::real) \<le> 2 ^ 32"
    by simp_all
  have "\<bar>Sigmet_Bin2Rad rnd u - real (unat u) / 65536 * (2 * pi)\<bar>
           \<le> 4 * (1 / 2 ^ 53) * (real (unat u) / 65536 * (2 * pi))"
    unfolding Sigmet_Bin2Rad_def by (rule rounded_product_bound [OF assms e qu p])
  moreover have "\<bar>Sigmet_Bin2Rad rnd u / (2 * pi) * 65536 - real (unat u)\<bar> < 1 / 2"
    unfolding Sigmet_Bin2Rad_def by (rule roundtrip_within_half [OF assms u0 u N16])
  moreover have "\<bar>Sigmet_Bin4Rad rnd v - real (unat v) / 4294967296 * (2 * pi)\<bar>
           \<le> 4 * (1 / 2 ^ 53) * (real (unat v) / 4294967296 * (2 * pi))"
    unfolding Sigmet_Bin4Rad_def by (rule rounded_product_bound [OF assms e qv p])
  moreover have "\<bar>Sigmet_Bin4Rad rnd v / (2 * pi) * 4294967296 - real (unat v)\<bar> < 1 / 2"
    unfolding Sigmet_Bin4Rad_def by (rule roundtrip_within_half [OF assms v0 v N32])
  ultimately show ?thesis
    by blast
qed

theorem binary_angle_roundtrip_bound_witness:
  "rounds_within (1 / 2 ^ 53) (\<lambda>x. x) \<and>
   \<bar>Sigmet_Bin2Rad (\<lambda>x. x) 16384 / (2 * pi) * 65536 - real (unat (16384 :: 16 word))\<bar> < 1 / 2 \<and>
   \<bar>Sigmet_Bin4Rad (\<lambda>x. x) 3221225472 / (2 * pi) * 4294967296 -
      real (unat (3221225472 :: 32 word))\<bar> < 1 / 2"
proof -
  have h: "rounds_within (1 / 2 ^ 53) (\<lambda>x. x)"
    by (simp add: rounds_within_def)
  from binary_angle_roundtrip_bound [OF h, of 16384 3221225472] h show ?thesis
    by blast
qed

lemma Sigmet_Bin2Rad_quarter_turn: "Sigmet_Bin2Rad (\<lambda>x. x) 16384 = pi / 2"
  by (simp add: Sigmet_Bin2Rad_def)

end
